theory Spec2Isabelle
  imports Complex_Main "HOL-Library.Word"
begin

section \<open>Gossip: a portable conversation container (gossip.py)\<close>

text \<open>
  A shallow embedding of the class \<open>Gossip\<close> of \<open>gossip.py\<close>: the constructor, the
  dictionary codec (\<open>to_dict\<close>, \<open>from_dict\<close>, \<open>load\<close>), file attachment and extraction,
  the human-readable rendering and the statistics record.

  Conventions of the embedding.
  \<^item> A Python \<open>str\<close> is the \<open>string\<close> of its UTF-8 bytes. Comparison, concatenation,
    \<open>lstrip\<close> and \<open>replace\<close> on ASCII characters act on the bytes as they act on the code
    points; \<open>len\<close> counts code points, which is \<open>py_len\<close> below.
  \<^item> A value of type \<open>Any\<close> (what \<open>json.loads\<close> returns, the values of an attachment
    dictionary) is a \<open>json\<close> value. JSON numbers with a fraction or an exponent are not
    represented.
  \<^item> Attributes follow the annotations of the source: \<open>str\<close>, \<open>List[str]\<close>,
    \<open>List[Dict[str, Any]]\<close>. Python does not check them; where \<open>from_dict\<close> hands a
    value of another type to the constructor, the embedding answers \<open>Unmodelled\<close>, which
    is not a Python exception but the edge of the embedding.
  \<^item> Every \<open>raise\<close> is a value \<open>Inl e\<close> of the type \<open>error + 'a\<close>.
  \<^item> Calls into the standard library whose result is not determined by the arguments
    (\<open>uuid4\<close>, \<open>utcnow\<close>, the file system) or whose definition is outside the repository
    (\<open>datetime.fromisoformat\<close>, \<open>strftime\<close>, \<open>json.loads\<close>, \<open>pathlib\<close>) are fields of the
    record \<open>pylib\<close>. \<open>base64\<close>, the compact \<open>json.dumps\<close>, the arithmetic of floats and the
    format \<open>.1f\<close> are written out.
\<close>

subsection \<open>Values and errors\<close>

datatype json =
    JNull
  | JBool bool
  | JInt int
  | JStr string
  | JArr "json list"
  | JObj "(string \<times> json) list"

datatype error =
    KeyError string
  | TypeError
  | ValueError string
  | AttributeError
  | FileNotFoundError string
  | BinasciiError
  | Unmodelled string

type_synonym byte = "8 word"

type_synonym pydict = "(string \<times> json) list"

definition then_do :: "error + 'a \<Rightarrow> ('a \<Rightarrow> error + 'b) \<Rightarrow> error + 'b" where
  "then_do m f = (case m of Inl e \<Rightarrow> Inl e | Inr x \<Rightarrow> f x)"

text \<open>\<open>d[k]\<close> for a string key: only a dictionary can be subscripted by a string.\<close>

fun subscr :: "json \<Rightarrow> string \<Rightarrow> error + json" where
  "subscr (JObj kvs) k = (case map_of kvs k of None \<Rightarrow> Inl (KeyError k) | Some v \<Rightarrow> Inr v)"
| "subscr _ k = Inl TypeError"

text \<open>\<open>d.get(k, dflt)\<close>: only a dictionary has the method.\<close>

fun dict_get :: "json \<Rightarrow> string \<Rightarrow> json \<Rightarrow> error + json" where
  "dict_get (JObj kvs) k dflt = (case map_of kvs k of None \<Rightarrow> Inr dflt | Some v \<Rightarrow> Inr v)"
| "dict_get _ k dflt = Inl AttributeError"

text \<open>\<open>x or dflt\<close> for an optional string and for an optional list: \<open>None\<close>, the empty
  string and the empty list are false.\<close>

definition or_else :: "'a list option \<Rightarrow> 'a list \<Rightarrow> 'a list" where
  "or_else x dflt = (case x of None \<Rightarrow> dflt | Some v \<Rightarrow> if v = [] then dflt else v)"

subsection \<open>The standard library, as parameters\<close>

record datetime =
  year :: nat
  month :: nat
  day :: nat
  hour :: nat
  minute :: nat
  second :: nat
  microsecond :: nat
  utcoffset :: "int option"

text \<open>
  \<open>fromisoformat\<close> answers \<open>None\<close> where \<open>datetime.fromisoformat\<close> raises its
  \<open>ValueError\<close>; the message of that error is the library's too, \<open>isoformat_error\<close>.
\<close>

record pylib =
  uuid4_hex :: string
  utcnow_isoformat :: string
  fromisoformat :: "string \<Rightarrow> datetime option"
  isoformat_error :: "string \<Rightarrow> string"
  strftime :: "datetime \<Rightarrow> string"
  json_loads :: "string \<Rightarrow> json option"
  read_file :: "string \<Rightarrow> byte list option"
  path_name :: "string \<Rightarrow> string"
  path_suffix :: "string \<Rightarrow> string"

subsection \<open>The container\<close>

record metadata_dict =
  topic :: string
  source_ai :: string
  created_by :: string

record context_dict =
  summary :: string
  key_points :: "string list"
  open_questions :: "string list"

record gossip =
  gossip_id :: string
  created :: string
  metadata :: metadata_dict
  ctx :: context_dict
  files :: "pydict list"
  continuation :: string

definition VERSION :: string where
  "VERSION = ''1.0''"

text \<open>
  \<open>Gossip.__init__\<close>. The parameter \<open>source_ai\<close> has the default \<open>"unknown"\<close>: \<open>None\<close>
  stands for an omitted argument. The other optional parameters default to \<open>None\<close> and
  go through \<open>or\<close>. The attribute \<open>context\<close> of the source is the field \<open>ctx\<close>.
\<close>

definition Gossip_init ::
  "pylib \<Rightarrow> string \<Rightarrow> string \<Rightarrow> string option \<Rightarrow> string list option \<Rightarrow> string list option
     \<Rightarrow> string option \<Rightarrow> string option \<Rightarrow> string option \<Rightarrow> gossip" where
  "Gossip_init lib topic_arg summary_arg source_ai_arg key_points_arg open_questions_arg
       continuation_arg gossip_id_arg created_arg =
     \<lparr> gossip_id = or_else gossip_id_arg (''gossip_'' @ take 12 (uuid4_hex lib)),
       created = or_else created_arg (utcnow_isoformat lib @ ''Z''),
       metadata = \<lparr> topic = topic_arg,
                    source_ai = (case source_ai_arg of None \<Rightarrow> ''unknown'' | Some s \<Rightarrow> s),
                    created_by = ''Gossip v1.0'' \<rparr>,
       ctx = \<lparr> summary = summary_arg,
               key_points = or_else key_points_arg [],
               open_questions = or_else open_questions_arg [] \<rparr>,
       files = [],
       continuation = or_else continuation_arg '''' \<rparr>"

subsection \<open>The dictionary codec\<close>

definition to_dict :: "gossip \<Rightarrow> json" where
  "to_dict g =
     JObj [ (''version'', JStr VERSION),
            (''gossip_id'', JStr (gossip_id g)),
            (''created'', JStr (created g)),
            (''metadata'', JObj [ (''topic'', JStr (topic (metadata g))),
                                  (''source_ai'', JStr (source_ai (metadata g))),
                                  (''created_by'', JStr (created_by (metadata g))) ]),
            (''context'', JObj [ (''summary'', JStr (summary (ctx g))),
                                 (''key_points'', JArr (map JStr (key_points (ctx g)))),
                                 (''open_questions'', JArr (map JStr (open_questions (ctx g)))) ]),
            (''files'', JArr (map JObj (files g))),
            (''continuation'', JStr (continuation g)) ]"

text \<open>
  The casts from \<open>Any\<close> to the annotated types of the constructor. Python performs none
  of them: a value of another type would be stored as it is, which the typed record
  cannot hold, so the embedding stops there with \<open>Unmodelled\<close>.
\<close>

fun as_str :: "string \<Rightarrow> json \<Rightarrow> error + string" where
  "as_str k (JStr s) = Inr s"
| "as_str k _ = Inl (Unmodelled k)"

fun as_opt_str :: "string \<Rightarrow> json \<Rightarrow> error + string option" where
  "as_opt_str k JNull = Inr None"
| "as_opt_str k (JStr s) = Inr (Some s)"
| "as_opt_str k _ = Inl (Unmodelled k)"

fun as_str_list :: "string \<Rightarrow> json list \<Rightarrow> error + string list" where
  "as_str_list k [] = Inr []"
| "as_str_list k (JStr s # vs) = then_do (as_str_list k vs) (\<lambda>ss. Inr (s # ss))"
| "as_str_list k (_ # vs) = Inl (Unmodelled k)"

fun as_opt_str_list :: "string \<Rightarrow> json \<Rightarrow> error + string list option" where
  "as_opt_str_list k JNull = Inr None"
| "as_opt_str_list k (JArr vs) = then_do (as_str_list k vs) (\<lambda>ss. Inr (Some ss))"
| "as_opt_str_list k _ = Inl (Unmodelled k)"

fun as_dict_list :: "string \<Rightarrow> json list \<Rightarrow> error + pydict list" where
  "as_dict_list k [] = Inr []"
| "as_dict_list k (JObj d # vs) = then_do (as_dict_list k vs) (\<lambda>ds. Inr (d # ds))"
| "as_dict_list k (_ # vs) = Inl (Unmodelled k)"

fun as_files :: "json \<Rightarrow> error + pydict list" where
  "as_files (JArr vs) = as_dict_list ''files'' vs"
| "as_files _ = Inl (Unmodelled ''files'')"

text \<open>
  \<open>Gossip.from_dict\<close>. The arguments of the constructor call are evaluated in the order
  of the source, so the first missing key is the one reported; the casts come after
  every lookup, since no Python exception stands for them.
\<close>

definition from_dict :: "pylib \<Rightarrow> json \<Rightarrow> error + gossip" where
  "from_dict lib data =
     then_do (subscr data ''metadata'') (\<lambda>md.
     then_do (subscr md ''topic'') (\<lambda>topic_v.
     then_do (subscr data ''context'') (\<lambda>cx.
     then_do (subscr cx ''summary'') (\<lambda>summary_v.
     then_do (dict_get md ''source_ai'' (JStr ''unknown'')) (\<lambda>source_ai_v.
     then_do (dict_get cx ''key_points'' (JArr [])) (\<lambda>key_points_v.
     then_do (dict_get cx ''open_questions'' (JArr [])) (\<lambda>open_questions_v.
     then_do (dict_get data ''continuation'' (JStr '''')) (\<lambda>continuation_v.
     then_do (subscr data ''gossip_id'') (\<lambda>gossip_id_v.
     then_do (subscr data ''created'') (\<lambda>created_v.
     then_do (dict_get data ''files'' (JArr [])) (\<lambda>files_v.
     then_do (as_str ''topic'' topic_v) (\<lambda>t.
     then_do (as_str ''summary'' summary_v) (\<lambda>s.
     then_do (as_str ''source_ai'' source_ai_v) (\<lambda>src.
     then_do (as_opt_str_list ''key_points'' key_points_v) (\<lambda>kps.
     then_do (as_opt_str_list ''open_questions'' open_questions_v) (\<lambda>oqs.
     then_do (as_opt_str ''continuation'' continuation_v) (\<lambda>cont.
     then_do (as_opt_str ''gossip_id'' gossip_id_v) (\<lambda>gid.
     then_do (as_opt_str ''created'' created_v) (\<lambda>cr.
     then_do (as_files files_v) (\<lambda>fs.
       Inr ((Gossip_init lib t s (Some src) kps oqs cont gid cr) \<lparr> files := fs \<rparr>)
     ))))))))))))))))))))"

text \<open>
  \<open>Gossip.load\<close>, from the content of the file: only \<open>json.JSONDecodeError\<close> is caught
  and turned into a \<open>ValueError\<close>; what \<open>from_dict\<close> raises passes through.
\<close>

definition load :: "pylib \<Rightarrow> string \<Rightarrow> error + gossip" where
  "load lib content =
     (case json_loads lib content of
        None \<Rightarrow> Inl (ValueError ''Could not parse Gossip file. Ensure it's valid JSON format.'')
      | Some data \<Rightarrow> from_dict lib data)"

subsection \<open>base64\<close>

text \<open>
  \<open>base64.b64encode\<close> (RFC 4648, standard alphabet, padded) and \<open>base64.b64decode\<close> in
  its default, non-validating mode as CPython's \<open>binascii.a2b_base64\<close> runs it: characters
  outside the alphabet are skipped, a pad that completes a quad ends the input, and
  data characters that do not fill a quad are an error. A \<open>str\<close> argument with a
  character outside ASCII is a \<open>ValueError\<close>.
\<close>

definition b64_char :: "nat \<Rightarrow> char" where
  "b64_char n =
     (if n < 26 then char_of (65 + n)
      else if n < 52 then char_of (71 + n)
      else if n < 62 then char_of (n - 4)
      else if n = 62 then char_of (43::nat) else char_of (47::nat))"

definition b64_value :: "char \<Rightarrow> nat option" where
  "b64_value c =
     (let k = (of_char c :: nat) in
      if 65 \<le> k \<and> k \<le> 90 then Some (k - 65)
      else if 97 \<le> k \<and> k \<le> 122 then Some (k - 71)
      else if 48 \<le> k \<and> k \<le> 57 then Some (k + 4)
      else if k = 43 then Some 62
      else if k = 47 then Some 63
      else None)"

fun b64encode_nat :: "nat list \<Rightarrow> string" where
  "b64encode_nat (a # b # c # rest) =
     [ b64_char (a div 4),
       b64_char ((a mod 4) * 16 + b div 16),
       b64_char ((b mod 16) * 4 + c div 64),
       b64_char (c mod 64) ] @ b64encode_nat rest"
| "b64encode_nat [a, b] =
     [ b64_char (a div 4),
       b64_char ((a mod 4) * 16 + b div 16),
       b64_char ((b mod 16) * 4),
       CHR ''='' ]"
| "b64encode_nat [a] =
     [ b64_char (a div 4), b64_char ((a mod 4) * 16), CHR ''='', CHR ''='' ]"
| "b64encode_nat [] = []"

definition b64encode :: "byte list \<Rightarrow> string" where
  "b64encode data = b64encode_nat (map unat data)"

text \<open>The decoder's loop: \<open>quad_pos\<close>, \<open>leftchar\<close>, \<open>pads\<close> and the bytes written so far
  (in reverse).\<close>

fun a2b_loop :: "nat \<Rightarrow> nat \<Rightarrow> nat \<Rightarrow> nat list \<Rightarrow> string \<Rightarrow> error + nat list" where
  "a2b_loop quad_pos leftchar pads out [] =
     (if quad_pos \<noteq> 0 then Inl BinasciiError else Inr (rev out))"
| "a2b_loop quad_pos leftchar pads out (ch # cs) =
     (if ch = CHR ''='' then
        (if quad_pos \<ge> 2 \<and> quad_pos + (pads + 1) \<ge> 4 then Inr (rev out)
         else a2b_loop quad_pos leftchar (if quad_pos \<ge> 2 then pads + 1 else pads) out cs)
      else
        (case b64_value ch of
           None \<Rightarrow> a2b_loop quad_pos leftchar pads out cs
         | Some v \<Rightarrow>
             (if quad_pos = 0 then a2b_loop 1 v 0 out cs
              else if quad_pos = 1 then
                a2b_loop 2 (v mod 16) 0 ((leftchar * 4 + v div 16) # out) cs
              else if quad_pos = 2 then
                a2b_loop 3 (v mod 4) 0 ((leftchar * 16 + v div 4) # out) cs
              else a2b_loop 0 0 0 ((leftchar * 64 + v) # out) cs)))"

definition b64decode :: "string \<Rightarrow> error + byte list" where
  "b64decode s =
     (if \<exists>c \<in> set s. (of_char c :: nat) \<ge> 128
      then Inl (ValueError ''string argument should contain only ASCII characters'')
      else then_do (a2b_loop 0 0 0 [] s) (\<lambda>out. Inr (map word_of_nat out)))"

subsection \<open>Attachments\<close>

definition mime_map :: "(string \<times> string) list" where
  "mime_map =
     [ (''.txt'', ''text/plain''),
       (''.pdf'', ''application/pdf''),
       (''.json'', ''application/json''),
       (''.png'', ''image/png''),
       (''.jpg'', ''image/jpeg''),
       (''.jpeg'', ''image/jpeg''),
       (''.gif'', ''image/gif''),
       (''.csv'', ''text/csv''),
       (''.md'', ''text/markdown''),
       (''.py'', ''text/x-python''),
       (''.js'', ''text/javascript''),
       (''.html'', ''text/html''),
       (''.xml'', ''text/xml''),
       (''.zip'', ''application/zip''),
       (''.doc'', ''application/msword''),
       (''.docx'', ''application/vnd.openxmlformats-officedocument.wordprocessingml.document''),
       (''.xls'', ''application/vnd.ms-excel''),
       (''.xlsx'', ''application/vnd.openxmlformats-officedocument.spreadsheetml.sheet'') ]"

text \<open>\<open>str.lower\<close> on the ASCII letters; no key of \<open>mime_map\<close> has a letter that a
  character outside ASCII lowers to.\<close>

definition lower_char :: "char \<Rightarrow> char" where
  "lower_char c =
     (let k = (of_char c :: nat) in if 65 \<le> k \<and> k \<le> 90 then char_of (k + 32) else c)"

definition get_mime_type :: "string \<Rightarrow> string" where
  "get_mime_type extension =
     (case map_of mime_map (map lower_char extension) of
        None \<Rightarrow> ''application/octet-stream''
      | Some m \<Rightarrow> m)"

text \<open>
  \<open>Gossip.add_file\<close>: \<open>read_file\<close> answers \<open>None\<close> where \<open>path.exists()\<close> is false. The
  message printed to the console is not part of the state.
\<close>

definition add_file :: "pylib \<Rightarrow> gossip \<Rightarrow> string \<Rightarrow> error + gossip" where
  "add_file lib g filepath =
     (case read_file lib filepath of
        None \<Rightarrow> Inl (FileNotFoundError filepath)
      | Some data \<Rightarrow>
          (let encoded = b64encode data;
               mime_type = get_mime_type (path_suffix lib filepath)
           in Inr (g \<lparr> files := files g @
                 [[ (''name'', JStr (path_name lib filepath)),
                    (''type'', JStr mime_type),
                    (''size'', JInt (int (length data))),
                    (''encoding'', JStr ''base64''),
                    (''data'', JStr encoded) ]] \<rparr>)))"

text \<open>
  \<open>Gossip.extract_file\<close>: the loop over \<open>self.files\<close> returns at the first entry whose
  \<open>name\<close> equals \<open>filename\<close>. The result is the path returned together with the bytes
  written to it.
\<close>

fun b64decode_any :: "json \<Rightarrow> error + byte list" where
  "b64decode_any (JStr s) = b64decode s"
| "b64decode_any _ = Inl TypeError"

fun extract_loop :: "pydict list \<Rightarrow> string \<Rightarrow> string option \<Rightarrow> error + string \<times> byte list" where
  "extract_loop [] filename output_path =
     Inl (ValueError (''File not found in Gossip: '' @ filename))"
| "extract_loop (file # rest) filename output_path =
     then_do (subscr (JObj file) ''name'') (\<lambda>n.
       if n = JStr filename then
         then_do (subscr (JObj file) ''data'') (\<lambda>d.
         then_do (b64decode_any d) (\<lambda>data.
           Inr (case output_path of None \<Rightarrow> filename | Some p \<Rightarrow> p, data)))
       else extract_loop rest filename output_path)"

definition extract_file :: "gossip \<Rightarrow> string \<Rightarrow> string option \<Rightarrow> error + string \<times> byte list" where
  "extract_file g filename output_path = extract_loop (files g) filename output_path"

subsection \<open>Strings and numbers of the rendering\<close>


text \<open>\<open>s.lstrip(chars)\<close> removes every leading character that occurs in \<open>chars\<close>.\<close>

definition lstrip :: "string \<Rightarrow> string \<Rightarrow> string" where
  "lstrip chars s = dropWhile (\<lambda>c. c \<in> set chars) s"

text \<open>\<open>s.replace('Z', '+00:00')\<close> replaces every occurrence.\<close>

definition replace_Z :: "string \<Rightarrow> string" where
  "replace_Z s = concat (map (\<lambda>c. if c = CHR ''Z'' then ''+00:00'' else [c]) s)"

fun join :: "string \<Rightarrow> string list \<Rightarrow> string" where
  "join sep [] = []"
| "join sep [x] = x"
| "join sep (x # y # ys) = x @ sep @ join sep (y # ys)"

function show_nat :: "nat \<Rightarrow> string" where
  "show_nat n =
     (if n < 10 then [char_of (48 + n)] else show_nat (n div 10) @ [char_of (48 + n mod 10)])"
  by pat_completeness auto
termination
  by (relation "measure id") auto

definition show_int :: "int \<Rightarrow> string" where
  "show_int i = (if i < 0 then ''-'' @ show_nat (nat (- i)) else show_nat (nat i))"

text \<open>
  The two markers of the rendering, as the bytes of the literals in the source file:
  the bullet is the three code points U+201A U+00C4 U+00A2, the unit of the rule the
  three code points U+201A U+00EF U+00EA.
\<close>

definition bullet :: string where
  "bullet = [CHR 0xE2, CHR 0x80, CHR 0x9A, CHR 0xC3, CHR 0x84, CHR 0xC2, CHR 0xA2]"

definition rule_unit :: string where
  "rule_unit = [CHR 0xE2, CHR 0x80, CHR 0x9A, CHR 0xC3, CHR 0xAF, CHR 0xC3, CHR 0xAA]"

definition rule63 :: string where
  "rule63 = concat (replicate 63 rule_unit)"

text \<open>
  \<open>x / 1024\<close> for a value of type \<open>Any\<close>: a \<open>bool\<close> counts as 0 or 1, anything that is
  not a number is a \<open>TypeError\<close>. The quotient is a float; it is the exact rational
  while the integer is below \<open>2 ^ 53\<close> in absolute value, and the embedding stops beyond.
\<close>

fun truediv_1024 :: "json \<Rightarrow> error + rat" where
  "truediv_1024 (JInt n) =
     (if \<bar>n\<bar> < 2 ^ 53 then Inr (of_int n / 1024) else Inl (Unmodelled ''float''))"
| "truediv_1024 (JBool b) = Inr ((if b then 1 else 0) / 1024)"
| "truediv_1024 _ = Inl TypeError"

text \<open>
  The format \<open>:.1f\<close> of a float whose value is the rational \<open>q\<close>: the nearest decimal
  with one digit after the point, a tie going to the even digit; a negative value keeps
  its sign also when it rounds to zero.
\<close>

definition format_1f :: "rat \<Rightarrow> string" where
  "format_1f q =
     (let x = \<bar>q\<bar> * 10;
          t = \<lfloor>x\<rfloor>;
          r = x - of_int t;
          u = nat (if r > 1 / 2 \<or> (r = 1 / 2 \<and> odd t) then t + 1 else t)
      in (if q < 0 then ''-'' else []) @ show_nat (u div 10) @ ''.'' @ show_nat (u mod 10))"








text \<open>\<open>str(x)\<close> inside an f-string, for the values whose text needs no \<open>repr\<close>.\<close>

fun py_str :: "json \<Rightarrow> error + string" where
  "py_str (JStr s) = Inr s"
| "py_str JNull = Inr ''None''"
| "py_str (JBool b) = Inr (if b then ''True'' else ''False'')"
| "py_str (JInt n) = Inr (show_int n)"
| "py_str _ = Inl (Unmodelled ''repr'')"

subsection \<open>The human-readable rendering\<close>

text \<open>The body of the loop over \<open>self.files\<close>: the line appended for one attachment.\<close>

definition file_line :: "pydict \<Rightarrow> error + string" where
  "file_line file =
     then_do (subscr (JObj file) ''size'') (\<lambda>sz.
     then_do (truediv_1024 sz) (\<lambda>size_kb.
     then_do (subscr (JObj file) ''name'') (\<lambda>nm.
     then_do (subscr (JObj file) ''type'') (\<lambda>ty.
     then_do (py_str nm) (\<lambda>n.
     then_do (py_str ty) (\<lambda>t.
       Inr (bullet @ '' '' @ n @ '' ('' @ t @ '', '' @ format_1f size_kb @ '' KB)'')))))))"

fun files_loop :: "string list \<Rightarrow> pydict list \<Rightarrow> error + string list" where
  "files_loop lines [] = Inr lines"
| "files_loop lines (file # rest) =
     then_do (file_line file) (\<lambda>l. files_loop (lines @ [l]) rest)"

text \<open>
  \<open>Gossip.to_human_readable\<close>. The list \<open>lines\<close> is built by the appends of the source,
  in their order, and joined by newlines at the end. The only call that can fail in
  the first literal is \<open>datetime.fromisoformat\<close>.
\<close>

definition to_human_readable :: "pylib \<Rightarrow> gossip \<Rightarrow> error + string" where
  "to_human_readable lib g =
     (case fromisoformat lib (replace_Z (created g)) of
        None \<Rightarrow> Inl (ValueError (isoformat_error lib (replace_Z (created g))))
      | Some dt \<Rightarrow>
          (let lines =
                 [ ''# GOSSIP [ID: '' @ gossip_id g @ '']'',
                   rule63,
                   ''AI Conversation Context Transfer File'',
                   ''Created by Gossip - Universal AI Integration Layer'',
                   rule63,
                   [],
                   ''**Topic:** '' @ topic (metadata g),
                   ''**Source AI:** '' @ source_ai (metadata g),
                   ''**Created:** '' @ strftime lib dt,
                   [],
                   rule63,
                   ''## CONVERSATION CONTEXT'',
                   [],
                   summary (ctx g),
                   [],
                   rule63,
                   ''## KEY POINTS & DECISIONS'',
                   [] ];
               lines = foldl (\<lambda>ls point. ls @ [bullet @ '' '' @ lstrip ''- '' point])
                         lines (key_points (ctx g));
               lines = lines @
                 [ [],
                   rule63,
                   ''## OPEN QUESTIONS / NEXT STEPS'',
                   [] ];
               lines = foldl (\<lambda>ls question. ls @ [bullet @ '' '' @ lstrip ''- '' question])
                         lines (open_questions (ctx g))
           in then_do
                (if files g \<noteq> [] then
                   then_do (files_loop
                              (lines @ [ [], rule63, ''## ATTACHED FILES'', [] ])
                              (files g))
                     (\<lambda>ls. Inr (ls @
                        [ [],
                          ''[Files are base64-encoded in the full Gossip JSON format]'' ]))
                 else Inr lines)
                (\<lambda>lines.
                   let lines =
                         (if continuation g \<noteq> [] then
                            lines @
                              [ [],
                                rule63,
                                ''## CONTINUE FROM HERE:'',
                                [],
                                continuation g ]
                          else lines);
                       lines = lines @
                         [ [],
                           rule63,
                           ''## INSTRUCTIONS FOR AI SYSTEMS:'',
                           [],
                           ''This is a Gossip file - a universal context transfer format for AI systems.'',
                           ''Please read this entire context carefully. This represents a conversation'',
                           ''from another AI system ('' @ source_ai (metadata g) @ '') that should continue'',
                           ''seamlessly in your system.'',
                           [],
                           ''Treat this as if you've been having this conversation yourself. Reference'',
                           ''the key points and decisions made, acknowledge the open questions, and pick'',
                           ''up from the 'Continue from here' section.'',
                           [],
                           ''If files are referenced but not accessible in your system, acknowledge them'',
                           ''and proceed based on the context provided.'',
                           [],
                           ''Gossip enables AI interoperability. Honor the context and maintain continuity.'',
                           rule63 ]
                   in Inr (join [CHR 0x0A] lines))))"

subsection \<open>The compact JSON text and the statistics\<close>











subsection \<open>One run of the standard library\<close>

text \<open>
  The answers of the library calls made in the examples of this theory. On the
  arguments the examples use they are the answers of Python: \<open>fromisoformat\<close> parses the
  two timestamps and rejects \<open>yesterday\<close>; \<open>json.loads\<close> rejects \<open>{oops\<close>; the file
  \<open>notes.txt\<close> holds the three bytes of \<open>abc\<close>, \<open>x.txt\<close> the byte of \<open>A\<close>, and no other file
  exists. On other arguments the run answers as if nothing else were known.
\<close>

definition pad2 :: "nat \<Rightarrow> string" where
  "pad2 n = (if n < 10 then ''0'' @ show_nat n else show_nat n)"

definition lib0 :: pylib where
  "lib0 =
     \<lparr> uuid4_hex = ''0f8fad5bd9cb469fa16570867728950e'',
       utcnow_isoformat = ''2024-03-15T10:30:00.250000'',
       fromisoformat = (\<lambda>s.
         if s = ''2024-03-15T10:30:00+00:00'' then
           Some \<lparr> year = 2024, month = 3, day = 15, hour = 10, minute = 30, second = 0,
                  microsecond = 0, utcoffset = Some 0 \<rparr>
         else if s = ''2024-03-15T10:30:00.250000+00:00'' then
           Some \<lparr> year = 2024, month = 3, day = 15, hour = 10, minute = 30, second = 0,
                  microsecond = 250000, utcoffset = Some 0 \<rparr>
         else None),
       isoformat_error = (\<lambda>s. ''Invalid isoformat string: '' @ [CHR 0x27] @ s @ [CHR 0x27]),
       strftime = (\<lambda>dt. show_nat (year dt) @ ''-'' @ pad2 (month dt) @ ''-'' @ pad2 (day dt)
                      @ '' '' @ pad2 (hour dt) @ '':'' @ pad2 (minute dt) @ '':''
                      @ pad2 (second dt) @ '' UTC''),
       json_loads = (\<lambda>s. if s = ''{}'' then Some (JObj []) else None),
       read_file = (\<lambda>p. if p = ''notes.txt'' then Some [97, 98, 99]
                         else if p = ''x.txt'' then Some [65] else None),
       path_name = (\<lambda>p. p),
       path_suffix = (\<lambda>p. if p = ''notes.txt'' \<or> p = ''x.txt'' then ''.txt'' else []) \<rparr>"

section \<open>The vocabulary of the properties\<close>

text \<open>
  The predicates, the example values and the layout of the specification that the
  properties below are stated with.
\<close>

subsection \<open>Containers and attachments\<close>

text \<open>The invariants of the data model that the codec relies on: the identifier and
  the timestamp are set, and \<open>created_by\<close> is the constant the constructor writes.\<close>

definition valid_gossip :: "gossip \<Rightarrow> bool" where
  "valid_gossip g \<longleftrightarrow>
     gossip_id g \<noteq> [] \<and> created g \<noteq> [] \<and> created_by (metadata g) = ''Gossip v1.0''"

definition example_gossip :: gossip where
  "example_gossip =
     \<lparr> gossip_id = ''gossip_0f8fad5bd9cb'',
       created = ''2024-03-15T10:30:00Z'',
       metadata = \<lparr> topic = ''T'', source_ai = ''claude'', created_by = ''Gossip v1.0'' \<rparr>,
       ctx = \<lparr> summary = ''S'',
               key_points = [''- Decided X'', ''plain''],
               open_questions = [''- why?''] \<rparr>,
       files =
         [ [ (''name'', JStr ''x.txt''), (''type'', JStr ''text/plain''), (''size'', JInt 1),
             (''encoding'', JStr ''base64''), (''data'', JStr ''QQ=='') ],
           [ (''name'', JStr ''x.txt''), (''type'', JStr ''text/plain''), (''size'', JInt 3),
             (''encoding'', JStr ''base64''), (''data'', JStr ''YWJj'') ] ],
       continuation = ''go on'' \<rparr>"

text \<open>The size invariant of one attachment: its \<open>size\<close> is an integer, its \<open>data\<close> a string
  that decodes, and the size is the number of decoded bytes.\<close>

definition size_invariant :: "pydict \<Rightarrow> bool" where
  "size_invariant f =
     (case map_of f ''size'' of
        Some (JInt n) \<Rightarrow>
          (case map_of f ''data'' of
             Some (JStr s) \<Rightarrow>
               (case b64decode s of Inr bytes \<Rightarrow> n = int (length bytes) | Inl e \<Rightarrow> False)
           | _ \<Rightarrow> False)
      | _ \<Rightarrow> False)"

text \<open>The containers built by the constructor and any number of successful \<open>add_file\<close>
  calls, each against its own state of the library.\<close>

inductive attached :: "gossip \<Rightarrow> bool" where
  constructed: "attached (Gossip_init lib t s src kps oqs cont gid cr)"
| file_added: "attached g \<Longrightarrow> add_file lib g filepath = Inr g' \<Longrightarrow> attached g'"

text \<open>The name and the payload of an attachment, where they are strings.\<close>

definition attachment_name :: "pydict \<Rightarrow> string option" where
  "attachment_name f = (case map_of f ''name'' of Some (JStr s) \<Rightarrow> Some s | _ \<Rightarrow> None)"

definition attachment_payload :: "pydict \<Rightarrow> string option" where
  "attachment_payload f = (case map_of f ''data'' of Some (JStr s) \<Rightarrow> Some s | _ \<Rightarrow> None)"

subsection \<open>Documents\<close>

text \<open>
  The vocabulary of the claim about decoding. \<open>field data p\<close> follows the path \<open>p\<close> of
  keys through nested objects. A document is typed as the schema says when it is an
  object and every field it has carries a value of the schema's type, \<open>null\<close> being
  admitted where the parameter of the constructor is optional.
\<close>

fun field :: "json \<Rightarrow> string list \<Rightarrow> json option" where
  "field v [] = Some v"
| "field (JObj kvs) (k # ks) = (case map_of kvs k of None \<Rightarrow> None | Some v \<Rightarrow> field v ks)"
| "field _ (k # ks) = None"

definition required_fields :: "string list list" where
  "required_fields =
     [[''metadata'', ''topic''], [''context'', ''summary''], [''gossip_id''], [''created'']]"

definition required_present :: "json \<Rightarrow> bool" where
  "required_present data = list_all (\<lambda>p. field data p \<noteq> None) required_fields"

fun is_obj :: "json \<Rightarrow> bool" where
  "is_obj (JObj kvs) = True"
| "is_obj _ = False"

fun is_str :: "json \<Rightarrow> bool" where
  "is_str (JStr s) = True"
| "is_str _ = False"

fun is_opt_str :: "json \<Rightarrow> bool" where
  "is_opt_str JNull = True"
| "is_opt_str (JStr s) = True"
| "is_opt_str _ = False"

fun is_opt_str_list :: "json \<Rightarrow> bool" where
  "is_opt_str_list JNull = True"
| "is_opt_str_list (JArr vs) = list_all is_str vs"
| "is_opt_str_list _ = False"

fun is_dict_list :: "json \<Rightarrow> bool" where
  "is_dict_list (JArr vs) = list_all is_obj vs"
| "is_dict_list _ = False"

definition typed_at :: "(json \<Rightarrow> bool) \<Rightarrow> json \<Rightarrow> string list \<Rightarrow> bool" where
  "typed_at P data p = (case field data p of None \<Rightarrow> True | Some v \<Rightarrow> P v)"

definition schema_typed :: "json \<Rightarrow> bool" where
  "schema_typed data \<longleftrightarrow>
     is_obj data
     \<and> typed_at is_obj data [''metadata'']
     \<and> typed_at is_str data [''metadata'', ''topic'']
     \<and> typed_at is_str data [''metadata'', ''source_ai'']
     \<and> typed_at is_obj data [''context'']
     \<and> typed_at is_str data [''context'', ''summary'']
     \<and> typed_at is_opt_str_list data [''context'', ''key_points'']
     \<and> typed_at is_opt_str_list data [''context'', ''open_questions'']
     \<and> typed_at is_opt_str data [''continuation'']
     \<and> typed_at is_opt_str data [''gossip_id'']
     \<and> typed_at is_opt_str data [''created'']
     \<and> typed_at is_dict_list data [''files'']"

definition known_keys :: "string list" where
  "known_keys = [''metadata'', ''context'', ''continuation'', ''gossip_id'', ''created'', ''files'']"

text \<open>\<open>d.get(k, dflt)\<close> on a dictionary, as a value.\<close>

definition getd :: "pydict \<Rightarrow> string \<Rightarrow> json \<Rightarrow> json" where
  "getd kvs k dflt = (case map_of kvs k of None \<Rightarrow> dflt | Some v \<Rightarrow> v)"

text \<open>
  The decoding in the words of the specification: each field read from its place in
  the document, an absent optional field replaced by its default, an absent or empty
  identifier or timestamp by a fresh one.
\<close>

definition str_or :: "json option \<Rightarrow> string \<Rightarrow> string" where
  "str_or v dflt = (case v of Some (JStr s) \<Rightarrow> s | _ \<Rightarrow> dflt)"

definition nonempty_str_or :: "json option \<Rightarrow> string \<Rightarrow> string" where
  "nonempty_str_or v dflt = (case v of Some (JStr s) \<Rightarrow> if s = [] then dflt else s | _ \<Rightarrow> dflt)"

definition str_list_or_empty :: "json option \<Rightarrow> string list" where
  "str_list_or_empty v = (case v of Some (JArr vs) \<Rightarrow> map (\<lambda>x. str_or (Some x) []) vs | _ \<Rightarrow> [])"

definition dict_list_or_empty :: "json option \<Rightarrow> pydict list" where
  "dict_list_or_empty v =
     (case v of Some (JArr vs) \<Rightarrow> map (\<lambda>x. case x of JObj d \<Rightarrow> d | _ \<Rightarrow> []) vs | _ \<Rightarrow> [])"

definition spec_decode :: "pylib \<Rightarrow> json \<Rightarrow> gossip" where
  "spec_decode lib data =
     \<lparr> gossip_id = nonempty_str_or (field data [''gossip_id''])
                     (''gossip_'' @ take 12 (uuid4_hex lib)),
       created = nonempty_str_or (field data [''created'']) (utcnow_isoformat lib @ ''Z''),
       metadata = \<lparr> topic = str_or (field data [''metadata'', ''topic'']) [],
                    source_ai = str_or (field data [''metadata'', ''source_ai'']) ''unknown'',
                    created_by = ''Gossip v1.0'' \<rparr>,
       ctx = \<lparr> summary = str_or (field data [''context'', ''summary'']) [],
               key_points = str_list_or_empty (field data [''context'', ''key_points'']),
               open_questions = str_list_or_empty (field data [''context'', ''open_questions'']) \<rparr>,
       files = dict_list_or_empty (field data [''files'']),
       continuation = str_or (field data [''continuation'']) [] \<rparr>"

definition present_ok :: "(json \<Rightarrow> bool) \<Rightarrow> pydict \<Rightarrow> string \<Rightarrow> bool" where
  "present_ok P kvs k = (case map_of kvs k of None \<Rightarrow> True | Some v \<Rightarrow> P v)"

definition minimal_document :: json where
  "minimal_document =
     JObj [ (''gossip_id'', JStr ''g1''),
            (''created'', JStr ''2024-03-15T10:30:00Z''),
            (''metadata'', JObj [(''topic'', JStr ''T'')]),
            (''context'', JObj [(''summary'', JStr ''S'')]) ]"

subsection \<open>The rendering\<close>

text \<open>
  The rendering as the specification lays it out: a head with the identifier, the
  topic, the source and the timestamp, one bullet for each key point, the heading of
  the open questions, one bullet for each open question, the section of the
  attachments, the section of the continuation, and the closing block. A bullet is the
  marker, a space, and the entry without its leading run of dashes and spaces. An
  attachment can be listed when its name and type are strings and its size is an
  integer that a float holds exactly.
\<close>

definition stripped_bullet :: "string \<Rightarrow> string" where
  "stripped_bullet entry =
     bullet @ '' '' @ dropWhile (\<lambda>c. c = CHR ''-'' \<or> c = CHR '' '') entry"

definition layout_head :: "pylib \<Rightarrow> gossip \<Rightarrow> datetime \<Rightarrow> string list" where
  "layout_head lib g dt =
     [ ''# GOSSIP [ID: '' @ gossip_id g @ '']'',
       rule63,
       ''AI Conversation Context Transfer File'',
       ''Created by Gossip - Universal AI Integration Layer'',
       rule63,
       [],
       ''**Topic:** '' @ topic (metadata g),
       ''**Source AI:** '' @ source_ai (metadata g),
       ''**Created:** '' @ strftime lib dt,
       [],
       rule63,
       ''## CONVERSATION CONTEXT'',
       [],
       summary (ctx g),
       [],
       rule63,
       ''## KEY POINTS & DECISIONS'',
       [] ]"

definition questions_heading :: "string list" where
  "questions_heading = [ [], rule63, ''## OPEN QUESTIONS / NEXT STEPS'', [] ]"

definition attachment_fields :: "pydict \<Rightarrow> (string \<times> string \<times> int) option" where
  "attachment_fields f =
     (case map_of f ''name'' of
        Some (JStr n) \<Rightarrow>
          (case map_of f ''type'' of
             Some (JStr t) \<Rightarrow>
               (case map_of f ''size'' of
                  Some (JInt k) \<Rightarrow> if \<bar>k\<bar> < 2 ^ 53 then Some (n, t, k) else None
                | _ \<Rightarrow> None)
           | _ \<Rightarrow> None)
      | _ \<Rightarrow> None)"

definition attachment_line :: "string \<times> string \<times> int \<Rightarrow> string" where
  "attachment_line = (\<lambda>(n, t, k).
     bullet @ '' '' @ n @ '' ('' @ t @ '', '' @ format_1f (of_int k / 1024) @ '' KB)'')"

definition listed_line :: "pydict \<Rightarrow> string" where
  "listed_line f = (case attachment_fields f of Some ntk \<Rightarrow> attachment_line ntk | None \<Rightarrow> [])"

definition attached_section :: "pydict list \<Rightarrow> string list" where
  "attached_section fs =
     (if fs = [] then []
      else [ [], rule63, ''## ATTACHED FILES'', [] ] @ map listed_line fs @
           [ [], ''[Files are base64-encoded in the full Gossip JSON format]'' ])"

definition continuation_section :: "string \<Rightarrow> string list" where
  "continuation_section c =
     (if c = [] then [] else [ [], rule63, ''## CONTINUE FROM HERE:'', [], c ])"

definition closing_block :: "string \<Rightarrow> string list" where
  "closing_block src =
     [ [],
       rule63,
       ''## INSTRUCTIONS FOR AI SYSTEMS:'',
       [],
       ''This is a Gossip file - a universal context transfer format for AI systems.'',
       ''Please read this entire context carefully. This represents a conversation'',
       ''from another AI system ('' @ src @ '') that should continue'',
       ''seamlessly in your system.'',
       [],
       ''Treat this as if you've been having this conversation yourself. Reference'',
       ''the key points and decisions made, acknowledge the open questions, and pick'',
       ''up from the 'Continue from here' section.'',
       [],
       ''If files are referenced but not accessible in your system, acknowledge them'',
       ''and proceed based on the context provided.'',
       [],
       ''Gossip enables AI interoperability. Honor the context and maintain continuity.'',
       rule63 ]"

text \<open>A container with one key point, which begins with a space.\<close>

definition leading_space_gossip :: gossip where
  "leading_space_gossip =
     \<lparr> gossip_id = ''g1'',
       created = ''2024-03-15T10:30:00Z'',
       metadata = \<lparr> topic = ''T'', source_ai = ''claude'', created_by = ''Gossip v1.0'' \<rparr>,
       ctx = \<lparr> summary = ''S'', key_points = ['' x''], open_questions = [] \<rparr>,
       files = [],
       continuation = [] \<rparr>"



text \<open>A document whose only attachment is the empty dictionary.\<close>

definition bare_attachment_document :: json where
  "bare_attachment_document =
     JObj [ (''gossip_id'', JStr ''g1''),
            (''created'', JStr ''2024-03-15T10:30:00Z''),
            (''metadata'', JObj [(''topic'', JStr ''T'')]),
            (''context'', JObj [(''summary'', JStr ''S'')]),
            (''files'', JArr [JObj []]) ]"

section \<open>Properties\<close>

subsection \<open>Auxiliary facts\<close>

lemma then_do_Inr [simp]: "then_do (Inr x) f = f x"
  by (simp add: then_do_def)

lemma then_do_Inl [simp]: "then_do (Inl e) f = Inl e"
  by (simp add: then_do_def)

lemma or_else_None [simp]: "or_else None d = d"
  by (simp add: or_else_def)

lemma or_else_Some [simp]: "v \<noteq> [] \<Longrightarrow> or_else (Some v) d = v"
  by (simp add: or_else_def)

lemma or_else_Nil [simp]: "or_else (Some v) [] = v"
  by (simp add: or_else_def)

lemma as_str_list_map [simp]: "as_str_list k (map JStr xs) = Inr xs"
  by (induction xs) simp_all

lemma as_dict_list_map [simp]: "as_dict_list k (map JObj ds) = Inr ds"
  by (induction ds) simp_all

lemma from_dict_to_dict:
  "valid_gossip g \<Longrightarrow> from_dict lib (to_dict g) = Inr g"
  unfolding valid_gossip_def from_dict_def to_dict_def
  by (cases g, cases "metadata g", cases "ctx g") (simp add: Gossip_init_def)

lemma valid_Gossip_init:
  "valid_gossip (Gossip_init lib t s src kps oqs cont gid cr)"
  by (simp add: valid_gossip_def Gossip_init_def or_else_def split: option.split)

lemma valid_add_file:
  "valid_gossip g \<Longrightarrow> add_file lib g path = Inr g' \<Longrightarrow> valid_gossip g'"
  by (auto simp: valid_gossip_def add_file_def Let_def split: option.splits)

lemma from_dict_shape:
  "from_dict lib data = Inr g \<Longrightarrow>
     \<exists>t s src kps oqs cont gid cr fs.
       g = (Gossip_init lib t s (Some src) kps oqs cont gid cr) \<lparr> files := fs \<rparr>"
  unfolding from_dict_def then_do_def
  by (simp split: sum.splits) blast

lemma valid_from_dict:
  assumes "from_dict lib data = Inr g"
  shows "valid_gossip g"
proof -
  from from_dict_shape [OF assms] obtain t s src kps oqs cont gid cr fs where
    g: "g = (Gossip_init lib t s (Some src) kps oqs cont gid cr) \<lparr> files := fs \<rparr>"
    by (elim exE)
  have "valid_gossip (Gossip_init lib t s (Some src) kps oqs cont gid cr)"
    by (rule valid_Gossip_init)
  with g show "valid_gossip g"
    by (simp add: valid_gossip_def)
qed

subsection \<open>The round trip through the dictionary\<close>

text \<open>
  C1. For every valid container \<open>g\<close> (identifier and timestamp set, \<open>created_by\<close> as
  the constructor writes it), decoding the dictionary that \<open>to_dict\<close> produces gives
  \<open>g\<close> back: the result is equal to \<open>g\<close> as a record, so in every scalar field, in the
  two sequences, and in the list of attachments with its order and every entry of
  every attachment. The version is the constant \<open>VERSION\<close> on both sides.
\<close>

theorem C1_round_trip:
  "valid_gossip g \<Longrightarrow> from_dict lib (to_dict g) = Inr g"
  by (rule from_dict_to_dict)

theorem C1_round_trip_witness:
  "valid_gossip example_gossip \<and> from_dict lib0 (to_dict example_gossip) = Inr example_gossip"
proof -
  have v: "valid_gossip example_gossip"
    by (simp add: valid_gossip_def example_gossip_def)
  from v C1_round_trip [OF v, of lib0] show ?thesis by simp
qed

subsection \<open>Construction\<close>

text \<open>
  C2, as the code has it. The constructor checks nothing: for every topic and every
  summary, the empty string included, and every choice of the optional parameters it
  returns a container that holds the topic and the summary it was given. No
  \<open>ValidationError\<close> exists in the source.
\<close>

theorem C2_construct_never_fails:
  "topic (metadata (Gossip_init lib t s src kps oqs cont gid cr)) = t
   \<and> summary (ctx (Gossip_init lib t s src kps oqs cont gid cr)) = s"
  by (simp add: Gossip_init_def)

text \<open>With an empty topic the constructor returns this container.\<close>

theorem C2_empty_topic_counterexample:
  "Gossip_init lib0 [] ''S'' None None None None None None =
     \<lparr> gossip_id = ''gossip_0f8fad5bd9cb'',
       created = ''2024-03-15T10:30:00.250000Z'',
       metadata = \<lparr> topic = [], source_ai = ''unknown'', created_by = ''Gossip v1.0'' \<rparr>,
       ctx = \<lparr> summary = ''S'', key_points = [], open_questions = [] \<rparr>,
       files = [],
       continuation = [] \<rparr>"
  by (simp add: Gossip_init_def lib0_def)

text \<open>
  C8. A container constructed from a topic and a summary alone has the source system
  \<open>unknown\<close>, no key points, no open questions, no attachments, an empty continuation,
  and the identifier \<open>gossip_\<close> followed by the first twelve hexadecimal digits of a
  fresh UUID, which is not empty.
\<close>

theorem C8_defaults:
  "source_ai (metadata (Gossip_init lib t s None None None None None None)) = ''unknown''
   \<and> key_points (ctx (Gossip_init lib t s None None None None None None)) = []
   \<and> open_questions (ctx (Gossip_init lib t s None None None None None None)) = []
   \<and> continuation (Gossip_init lib t s None None None None None None) = []
   \<and> gossip_id (Gossip_init lib t s None None None None None None)
       = ''gossip_'' @ take 12 (uuid4_hex lib)
   \<and> gossip_id (Gossip_init lib t s None None None None None None) \<noteq> []"
  by (simp add: Gossip_init_def)

subsection \<open>base64 decoding inverts encoding\<close>

lemma of_char_b64_char:
  "n < 64 \<Longrightarrow> (of_char (b64_char n) :: nat) =
     (if n < 26 then 65 + n else if n < 52 then 71 + n else if n < 62 then n - 4
      else if n = 62 then 43 else 47)"
  by (simp add: b64_char_def)

lemma b64_value_char: "n < 64 \<Longrightarrow> b64_value (b64_char n) = Some n"
  unfolding b64_value_def Let_def by (simp add: of_char_b64_char) arith

lemma b64_char_not_pad: "n < 64 \<Longrightarrow> b64_char n \<noteq> CHR ''=''"
proof
  assume n: "n < 64" and "b64_char n = CHR ''=''"
  then have "(of_char (b64_char n) :: nat) = of_char CHR ''=''" by simp
  with n show False by (simp add: of_char_b64_char split: if_splits)
qed

lemma a2b_step:
  "v < 64 \<Longrightarrow> a2b_loop q l p out (b64_char v # cs) =
     (if q = 0 then a2b_loop 1 v 0 out cs
      else if q = 1 then a2b_loop 2 (v mod 16) 0 ((l * 4 + v div 16) # out) cs
      else if q = 2 then a2b_loop 3 (v mod 4) 0 ((l * 16 + v div 4) # out) cs
      else a2b_loop 0 0 0 ((l * 64 + v) # out) cs)"
  by (simp add: b64_value_char b64_char_not_pad)

lemma hi_part: "y < k \<Longrightarrow> (x * k + y) div k = (x::nat)"
  by simp

lemma lo_part: "y < k \<Longrightarrow> (x * k + y) mod k = (y::nat)"
  by simp

lemma sextet_arith:
  fixes a b c :: nat
  assumes "b < 256" "c < 256"
  shows "(a mod 4) * 16 + b div 16 < 64"
    and "(b mod 16) * 4 + c div 64 < 64"
    and "(b mod 16) * 4 < 64"
    and "(a mod 4) * 16 < 64"
    and "a div 4 * 4 + ((a mod 4) * 16 + b div 16) div 16 = a"
    and "((a mod 4) * 16 + b div 16) mod 16 * 16 + ((b mod 16) * 4 + c div 64) div 4 = b"
    and "((b mod 16) * 4 + c div 64) mod 4 * 64 + c mod 64 = c"
    and "((a mod 4) * 16 + b div 16) mod 16 * 16 + ((b mod 16) * 4) div 4 = b"
    and "a div 4 * 4 + ((a mod 4) * 16) div 16 = a"
proof -
  have a4: "a mod 4 < 4" and b16: "b mod 16 < 16" by simp_all
  have bd: "b div 16 < 16" using assms(1) by (simp add: less_mult_imp_div_less)
  have cd: "c div 64 < 4" using assms(2) by (simp add: less_mult_imp_div_less)
  show "(a mod 4) * 16 + b div 16 < 64" using a4 bd by linarith
  show "(b mod 16) * 4 + c div 64 < 64" using b16 cd by linarith
  show "(b mod 16) * 4 < 64" using b16 by linarith
  show "(a mod 4) * 16 < 64" using a4 by linarith
  have h1: "((a mod 4) * 16 + b div 16) div 16 = a mod 4" by (rule hi_part [OF bd])
  have l1: "((a mod 4) * 16 + b div 16) mod 16 = b div 16" by (rule lo_part [OF bd])
  have h2: "((b mod 16) * 4 + c div 64) div 4 = b mod 16" by (rule hi_part [OF cd])
  have l2: "((b mod 16) * 4 + c div 64) mod 4 = c div 64" by (rule lo_part [OF cd])
  show "a div 4 * 4 + ((a mod 4) * 16 + b div 16) div 16 = a"
    unfolding h1 by simp
  show "((a mod 4) * 16 + b div 16) mod 16 * 16 + ((b mod 16) * 4 + c div 64) div 4 = b"
    unfolding l1 h2 by simp
  show "((b mod 16) * 4 + c div 64) mod 4 * 64 + c mod 64 = c"
    unfolding l2 by simp
  show "((a mod 4) * 16 + b div 16) mod 16 * 16 + ((b mod 16) * 4) div 4 = b"
    unfolding l1 by simp
  show "a div 4 * 4 + ((a mod 4) * 16) div 16 = a"
    by simp
qed

lemma a2b_quad_raw:
  assumes "v0 < 64" "v1 < 64" "v2 < 64" "v3 < 64"
  shows "a2b_loop 0 l p out (b64_char v0 # b64_char v1 # b64_char v2 # b64_char v3 # cs)
         = a2b_loop 0 0 0
             ((v2 mod 4 * 64 + v3) # (v1 mod 16 * 16 + v2 div 4) # (v0 * 4 + v1 div 16) # out) cs"
  by (simp add: a2b_step [OF assms(1)] a2b_step [OF assms(2)] a2b_step [OF assms(3)]
        a2b_step [OF assms(4)] del: a2b_loop.simps)

lemma a2b_pad1_raw:
  assumes "v0 < 64" "v1 < 64" "v2 < 64"
  shows "a2b_loop 0 l p out [b64_char v0, b64_char v1, b64_char v2, CHR ''='']
         = Inr (rev out @ [v0 * 4 + v1 div 16, v1 mod 16 * 16 + v2 div 4])"
  by (simp add: a2b_step [OF assms(1)] a2b_step [OF assms(2)] a2b_step [OF assms(3)]
        del: a2b_loop.simps) simp

lemma a2b_pad2_raw:
  assumes "v0 < 64" "v1 < 64"
  shows "a2b_loop 0 l p out [b64_char v0, b64_char v1, CHR ''='', CHR ''='']
         = Inr (rev out @ [v0 * 4 + v1 div 16])"
  by (simp add: a2b_step [OF assms(1)] a2b_step [OF assms(2)] del: a2b_loop.simps) simp

lemma a2b_encode:
  "\<forall>x \<in> set xs. x < 256 \<Longrightarrow> a2b_loop 0 l p out (b64encode_nat xs) = Inr (rev out @ xs)"
proof (induction xs arbitrary: l p out rule: b64encode_nat.induct)
  case (1 a b c rest)
  then have a: "a < 256" and b: "b < 256" and c: "c < 256"
    and rest: "\<forall>x \<in> set rest. x < 256" by simp_all
  have v0: "a div 4 < 64" using a by simp
  have v1: "a mod 4 * 16 + b div 16 < 64" by (rule sextet_arith(1) [OF b c])
  have v2: "b mod 16 * 4 + c div 64 < 64" by (rule sextet_arith(2) [OF b c])
  have v3: "c mod 64 < 64" by simp
  have A: "a div 4 * 4 + (a mod 4 * 16 + b div 16) div 16 = a"
    by (rule sextet_arith(5) [OF b c])
  have B: "(a mod 4 * 16 + b div 16) mod 16 * 16 + (b mod 16 * 4 + c div 64) div 4 = b"
    by (rule sextet_arith(6) [OF b c])
  have C: "(b mod 16 * 4 + c div 64) mod 4 * 64 + c mod 64 = c"
    by (rule sextet_arith(7) [OF b c])
  have "a2b_loop 0 l p out (b64encode_nat (a # b # c # rest))
        = a2b_loop 0 0 0 (c # b # a # out) (b64encode_nat rest)"
    using a2b_quad_raw [OF v0 v1 v2 v3, of l p out "b64encode_nat rest"]
    by (simp only: A B C b64encode_nat.simps append.simps)
  also have "\<dots> = Inr (rev (c # b # a # out) @ rest)"
    by (rule "1.IH" [OF rest])
  finally show ?case by simp
next
  case (2 a b)
  then have a: "a < 256" and b: "b < 256" by simp_all
  have v0: "a div 4 < 64" using a by simp
  have v1: "a mod 4 * 16 + b div 16 < 64" by (rule sextet_arith(1) [OF b b])
  have v2: "b mod 16 * 4 < 64" by (rule sextet_arith(3) [OF b b])
  have A: "a div 4 * 4 + (a mod 4 * 16 + b div 16) div 16 = a"
    by (rule sextet_arith(5) [OF b b])
  have B: "(a mod 4 * 16 + b div 16) mod 16 * 16 + (b mod 16 * 4) div 4 = b"
    by (rule sextet_arith(8) [OF b b])
  show ?case
    using a2b_pad1_raw [OF v0 v1 v2, of l p out]
    by (simp only: A B b64encode_nat.simps)
next
  case (3 a)
  then have a: "a < 256" by simp
  have v0: "a div 4 < 64" using a by simp
  have v1: "a mod 4 * 16 < 64" by (rule sextet_arith(4) [OF a a])
  have A: "a div 4 * 4 + (a mod 4 * 16) div 16 = a"
    by (rule sextet_arith(9) [OF a a])
  show ?case
    using a2b_pad2_raw [OF v0 v1, of l p out]
    by (simp only: A b64encode_nat.simps)
next
  case 4
  then show ?case by simp
qed

lemma b64_char_ascii: "(of_char (b64_char n) :: nat) < 128"
  by (simp add: b64_char_def) arith

lemma b64encode_nat_ascii:
  "c \<in> set (b64encode_nat xs) \<Longrightarrow> (of_char c :: nat) < 128"
  by (induction xs rule: b64encode_nat.induct) (auto simp: b64_char_ascii)

lemma b64decode_b64encode: "b64decode (b64encode data) = Inr data"
proof -
  have bound: "\<forall>x \<in> set (map unat data). x < 256"
  proof
    fix x assume "x \<in> set (map unat data)"
    then obtain w :: byte where "x = unat w" by auto
    then show "x < 256" using unsigned_less [of w] by simp
  qed
  have ascii: "\<not> (\<exists>c \<in> set (b64encode data). (of_char c :: nat) \<ge> 128)"
    using b64encode_nat_ascii [of _ "map unat data"] by (fastforce simp: b64encode_def)
  have "a2b_loop 0 0 0 [] (b64encode data) = Inr (map unat data)"
    using a2b_encode [OF bound, of 0 0 "[]"] by (simp add: b64encode_def)
  with ascii show ?thesis
    by (simp add: b64decode_def comp_def map_idI)
qed

subsection \<open>Attachments\<close>

lemma add_file_files:
  "add_file lib g filepath = Inr g' \<Longrightarrow>
     \<exists>nm ty data. files g' = files g @
       [[ (''name'', JStr nm), (''type'', JStr ty), (''size'', JInt (int (length data))),
          (''encoding'', JStr ''base64''), (''data'', JStr (b64encode data)) ]]"
  by (auto simp: add_file_def Let_def split: option.splits)

lemma attached_size_invariant:
  "attached g \<Longrightarrow> list_all size_invariant (files g)"
proof (induction rule: attached.induct)
  case (constructed lib t s src kps oqs cont gid cr)
  show ?case by (simp add: Gossip_init_def)
next
  case (file_added g lib filepath g')
  from add_file_files [OF file_added.hyps(2)] obtain nm ty data where
    "files g' = files g @
       [[ (''name'', JStr nm), (''type'', JStr ty), (''size'', JInt (int (length data))),
          (''encoding'', JStr ''base64''), (''data'', JStr (b64encode data)) ]]"
    by (elim exE)
  with file_added.IH show ?case
    by (simp add: size_invariant_def b64decode_b64encode)
qed

text \<open>
  C3, as the code has it. For every container built by the constructor and by
  \<open>add_file\<close>, and every index into its attachments, the \<open>size\<close> of the attachment is the
  number of bytes its \<open>data\<close> decodes to. \<open>from_dict\<close> is not among the operations: it
  takes the list \<open>files\<close> of the document as it is.
\<close>

theorem C3_size_invariant_of_attached:
  "attached g \<Longrightarrow> \<forall>i < length (files g). size_invariant (files g ! i)"
  using attached_size_invariant [of g] by (simp add: list_all_length)

theorem C3_size_invariant_of_attached_witness:
  "attached
     ((Gossip_init lib0 ''T'' ''S'' None None None None None None)
        \<lparr> files := [[ (''name'', JStr ''notes.txt''), (''type'', JStr ''text/plain''),
                      (''size'', JInt 3), (''encoding'', JStr ''base64''),
                      (''data'', JStr ''YWJj'') ]] \<rparr>)
   \<and> size_invariant [ (''name'', JStr ''notes.txt''), (''type'', JStr ''text/plain''),
                      (''size'', JInt 3), (''encoding'', JStr ''base64''),
                      (''data'', JStr ''YWJj'') ]"
proof -
  let ?g = "Gossip_init lib0 ''T'' ''S'' None None None None None None"
  let ?f = "[ (''name'', JStr ''notes.txt''), (''type'', JStr ''text/plain''),
              (''size'', JInt 3), (''encoding'', JStr ''base64''),
              (''data'', JStr ''YWJj'') ]"
  have "add_file lib0 ?g ''notes.txt'' = Inr (?g \<lparr> files := [?f] \<rparr>)"
    by code_simp
  then have a: "attached (?g \<lparr> files := [?f] \<rparr>)"
    using attached.constructed attached.file_added by blast
  from a C3_size_invariant_of_attached [OF a] show ?thesis by simp
qed

text \<open>A document whose attachment declares five bytes and carries none decodes to a
  container with that attachment.\<close>

theorem C3_decode_counterexample:
  "from_dict lib0
     (JObj [ (''gossip_id'', JStr ''g1''),
             (''created'', JStr ''2024-03-15T10:30:00Z''),
             (''metadata'', JObj [(''topic'', JStr ''T'')]),
             (''context'', JObj [(''summary'', JStr ''S'')]),
             (''files'', JArr [JObj [ (''name'', JStr ''a.txt''), (''type'', JStr ''text/plain''),
                                      (''size'', JInt 5), (''encoding'', JStr ''base64''),
                                      (''data'', JStr []) ]]) ])
   = Inr \<lparr> gossip_id = ''g1'',
           created = ''2024-03-15T10:30:00Z'',
           metadata = \<lparr> topic = ''T'', source_ai = ''unknown'', created_by = ''Gossip v1.0'' \<rparr>,
           ctx = \<lparr> summary = ''S'', key_points = [], open_questions = [] \<rparr>,
           files = [[ (''name'', JStr ''a.txt''), (''type'', JStr ''text/plain''),
                      (''size'', JInt 5), (''encoding'', JStr ''base64''),
                      (''data'', JStr []) ]],
           continuation = [] \<rparr>
   \<and> b64decode [] = Inr []
   \<and> \<not> size_invariant [ (''name'', JStr ''a.txt''), (''type'', JStr ''text/plain''),
                         (''size'', JInt 5), (''encoding'', JStr ''base64''),
                         (''data'', JStr []) ]"
  by code_simp

subsection \<open>Extraction\<close>

lemma extract_loop_find:
  assumes "\<forall>f \<in> set fs. attachment_name f \<noteq> None \<and> attachment_payload f \<noteq> None"
  shows "extract_loop fs n out =
     (case find (\<lambda>f. attachment_name f = Some n) fs of
        None \<Rightarrow> Inl (ValueError (''File not found in Gossip: '' @ n))
      | Some f \<Rightarrow>
          then_do (b64decode (the (attachment_payload f)))
            (\<lambda>bytes. Inr (case out of None \<Rightarrow> n | Some p \<Rightarrow> p, bytes)))"
  using assms
proof (induction fs)
  case Nil
  show ?case by simp
next
  case (Cons f fs)
  from Cons.prems obtain nm pl where
    nm: "map_of f ''name'' = Some (JStr nm)" and pl: "map_of f ''data'' = Some (JStr pl)"
    by (auto simp: attachment_name_def attachment_payload_def split: option.splits json.splits)
  from Cons.prems have rest:
    "\<forall>f \<in> set fs. attachment_name f \<noteq> None \<and> attachment_payload f \<noteq> None" by simp
  show ?case
  proof (cases "nm = n")
    case True
    with nm pl show ?thesis
      by (simp add: attachment_name_def attachment_payload_def)
  next
    case False
    with nm pl Cons.IH [OF rest] show ?thesis
      by (simp add: attachment_name_def)
  qed
qed

text \<open>
  C4. In a container whose attachments each have a name and a payload, both strings,
  \<open>extract_file\<close> with the name \<open>n\<close> finds the first attachment in sequence order whose
  name is exactly \<open>n\<close> and writes the base64 decoding of its payload to the output path,
  which it returns (a payload that does not decode passes the error of the decoder
  on); later attachments of the same name are never looked at. If no attachment has
  the name \<open>n\<close> it raises the \<open>ValueError\<close> that says so.
\<close>

theorem C4_extract_first_match:
  assumes "\<forall>f \<in> set (files g). attachment_name f \<noteq> None \<and> attachment_payload f \<noteq> None"
  shows "extract_file g n out =
     (case find (\<lambda>f. attachment_name f = Some n) (files g) of
        None \<Rightarrow> Inl (ValueError (''File not found in Gossip: '' @ n))
      | Some f \<Rightarrow>
          then_do (b64decode (the (attachment_payload f)))
            (\<lambda>bytes. Inr (case out of None \<Rightarrow> n | Some p \<Rightarrow> p, bytes)))"
  unfolding extract_file_def by (rule extract_loop_find [OF assms])

theorem C4_extract_first_match_witness:
  "list_all (\<lambda>f. attachment_name f \<noteq> None \<and> attachment_payload f \<noteq> None)
     (files example_gossip)
   \<and> extract_file example_gossip ''x.txt'' None = Inr (''x.txt'', [65])
   \<and> extract_file example_gossip ''missing.txt'' None
       = Inl (ValueError ''File not found in Gossip: missing.txt'')"
proof -
  have wf: "\<forall>f \<in> set (files example_gossip).
              attachment_name f \<noteq> None \<and> attachment_payload f \<noteq> None"
    by (simp add: example_gossip_def attachment_name_def attachment_payload_def)
  have d: "b64decode ''QQ=='' = Inr [65]" by code_simp
  have f1: "find (\<lambda>f. attachment_name f = Some ''x.txt'') (files example_gossip)
            = Some (hd (files example_gossip))"
    by (simp add: example_gossip_def attachment_name_def)
  have p1: "attachment_payload (hd (files example_gossip)) = Some ''QQ==''"
    by (simp add: example_gossip_def attachment_payload_def)
  have f2: "find (\<lambda>f. attachment_name f = Some ''missing.txt'') (files example_gossip) = None"
    by (simp add: example_gossip_def attachment_name_def)
  show ?thesis
    using wf C4_extract_first_match [OF wf, of "''x.txt''" None]
      C4_extract_first_match [OF wf, of "''missing.txt''" None]
    by (simp add: f1 f2 p1 d list_all_iff)
qed

subsection \<open>Decoding documents\<close>

lemma dict_get_getd: "dict_get (JObj kvs) k dflt = Inr (getd kvs k dflt)"
  by (simp add: getd_def split: option.split)

lemma as_str_eq: "is_str v \<Longrightarrow> as_str k v = Inr (str_or (Some v) [])"
  by (cases v) (simp_all add: str_or_def)

lemma as_opt_str_eq:
  "is_opt_str v \<Longrightarrow> as_opt_str k v = Inr (case v of JStr s \<Rightarrow> Some s | _ \<Rightarrow> None)"
  by (cases v) simp_all

lemma as_str_list_eq:
  "list_all is_str vs \<Longrightarrow> as_str_list k vs = Inr (map (\<lambda>x. str_or (Some x) []) vs)"
proof (induction vs)
  case Nil
  show ?case by simp
next
  case (Cons v vs)
  then obtain s where "v = JStr s" by (cases v) simp_all
  with Cons show ?case by (simp add: str_or_def)
qed

lemma as_opt_str_list_eq:
  "is_opt_str_list v \<Longrightarrow>
     as_opt_str_list k v =
       Inr (case v of JArr vs \<Rightarrow> Some (map (\<lambda>x. str_or (Some x) []) vs) | _ \<Rightarrow> None)"
  by (cases v) (simp_all add: as_str_list_eq)

lemma as_dict_list_eq:
  "list_all is_obj vs \<Longrightarrow>
     as_dict_list k vs = Inr (map (\<lambda>x. case x of JObj d \<Rightarrow> d | _ \<Rightarrow> []) vs)"
proof (induction vs)
  case Nil
  show ?case by simp
next
  case (Cons v vs)
  then obtain d where "v = JObj d" by (cases v) simp_all
  with Cons show ?case by simp
qed

lemma as_files_eq: "is_dict_list v \<Longrightarrow> as_files v = Inr (dict_list_or_empty (Some v))"
  by (cases v) (simp_all add: as_dict_list_eq dict_list_or_empty_def)

lemma getd_typed: "present_ok P kvs k \<Longrightarrow> P dflt \<Longrightarrow> P (getd kvs k dflt)"
  by (simp add: present_ok_def getd_def split: option.splits)

lemma read_str:
  "present_ok is_str kvs k \<Longrightarrow>
     str_or (Some (getd kvs k (JStr d))) [] = str_or (map_of kvs k) d"
  by (cases "map_of kvs k")
     (auto simp: present_ok_def getd_def str_or_def split: json.splits)

lemma read_opt_str:
  "present_ok is_opt_str kvs k \<Longrightarrow>
     or_else (case getd kvs k (JStr []) of JStr s \<Rightarrow> Some s | _ \<Rightarrow> None) [] =
       str_or (map_of kvs k) []"
  by (cases "map_of kvs k")
     (auto simp: present_ok_def getd_def str_or_def or_else_def split: json.splits)

lemma read_opt_str_list:
  "present_ok is_opt_str_list kvs k \<Longrightarrow>
     or_else (case getd kvs k (JArr []) of
                JArr vs \<Rightarrow> Some (map (\<lambda>x. str_or (Some x) []) vs) | _ \<Rightarrow> None) [] =
       str_list_or_empty (map_of kvs k)"
  by (cases "map_of kvs k")
     (auto simp: present_ok_def getd_def str_list_or_empty_def or_else_def split: json.splits)

lemma read_files:
  "dict_list_or_empty (Some (getd kvs k (JArr []))) = dict_list_or_empty (map_of kvs k)"
  by (cases "map_of kvs k") (simp_all add: getd_def dict_list_or_empty_def)

lemma read_required:
  "or_else (case v of JStr s \<Rightarrow> Some s | _ \<Rightarrow> None) d = nonempty_str_or (Some v) d"
  by (cases v) (simp_all add: nonempty_str_or_def or_else_def)

lemma field_single: "field (JObj kvs) [k] = map_of kvs k"
  by (simp split: option.split)

lemma field_double:
  "field (JObj kvs) [k1, k2] =
     (case map_of kvs k1 of Some (JObj d) \<Rightarrow> map_of d k2 | _ \<Rightarrow> None)"
  by (simp add: field_single split: option.split json.split)

lemma required_present_obj:
  "required_present (JObj kvs) \<longleftrightarrow>
     field (JObj kvs) [''metadata'', ''topic''] \<noteq> None
     \<and> field (JObj kvs) [''context'', ''summary''] \<noteq> None
     \<and> map_of kvs ''gossip_id'' \<noteq> None
     \<and> map_of kvs ''created'' \<noteq> None"
  by (simp add: required_present_def required_fields_def field_single del: field.simps)

lemma typed_at_single: "typed_at P (JObj kvs) [k] = present_ok P kvs k"
  by (simp only: typed_at_def present_ok_def field_single)

lemma typed_at_double:
  "map_of kvs k1 = Some (JObj d) \<Longrightarrow> typed_at P (JObj kvs) [k1, k2] = present_ok P d k2"
  by (simp add: typed_at_def present_ok_def field_double del: field.simps)

lemma schema_typed_top:
  assumes "schema_typed (JObj kvs)"
  shows "present_ok is_obj kvs ''metadata''"
    and "present_ok is_obj kvs ''context''"
    and "present_ok is_opt_str kvs ''continuation''"
    and "present_ok is_opt_str kvs ''gossip_id''"
    and "present_ok is_opt_str kvs ''created''"
    and "present_ok is_dict_list kvs ''files''"
  using assms unfolding schema_typed_def typed_at_single by blast+

lemma schema_typed_metadata:
  assumes "schema_typed (JObj kvs)" "map_of kvs ''metadata'' = Some (JObj md)"
  shows "present_ok is_str md ''topic''" and "present_ok is_str md ''source_ai''"
  using assms(1) unfolding schema_typed_def typed_at_double [OF assms(2)] by blast+

lemma schema_typed_context:
  assumes "schema_typed (JObj kvs)" "map_of kvs ''context'' = Some (JObj cx)"
  shows "present_ok is_str cx ''summary''"
    and "present_ok is_opt_str_list cx ''key_points''"
    and "present_ok is_opt_str_list cx ''open_questions''"
  using assms(1) unfolding schema_typed_def typed_at_double [OF assms(2)] by blast+

lemma present_obj:
  "present_ok is_obj kvs k \<Longrightarrow> map_of kvs k = Some v \<Longrightarrow> \<exists>d. v = JObj d"
  by (cases v) (simp_all add: present_ok_def)

lemma present_str:
  "present_ok is_str kvs k \<Longrightarrow> map_of kvs k = Some v \<Longrightarrow> \<exists>s. v = JStr s"
  by (cases v) (simp_all add: present_ok_def)

lemma from_dict_run:
  assumes md: "map_of kvs ''metadata'' = Some (JObj md)"
    and cx: "map_of kvs ''context'' = Some (JObj cx)"
    and t: "map_of md ''topic'' = Some (JStr t)"
    and s: "map_of cx ''summary'' = Some (JStr s)"
    and gv: "map_of kvs ''gossip_id'' = Some gv"
    and cv: "map_of kvs ''created'' = Some cv"
    and g_ok: "is_opt_str gv"
    and c_ok: "is_opt_str cv"
    and src_ok: "is_str (getd md ''source_ai'' (JStr ''unknown''))"
    and kps_ok: "is_opt_str_list (getd cx ''key_points'' (JArr []))"
    and oqs_ok: "is_opt_str_list (getd cx ''open_questions'' (JArr []))"
    and cont_ok: "is_opt_str (getd kvs ''continuation'' (JStr []))"
    and files_ok: "is_dict_list (getd kvs ''files'' (JArr []))"
  shows "from_dict lib (JObj kvs) =
      Inr ((Gossip_init lib t s
              (Some (str_or (Some (getd md ''source_ai'' (JStr ''unknown''))) []))
              (case getd cx ''key_points'' (JArr []) of
                 JArr vs \<Rightarrow> Some (map (\<lambda>x. str_or (Some x) []) vs) | _ \<Rightarrow> None)
              (case getd cx ''open_questions'' (JArr []) of
                 JArr vs \<Rightarrow> Some (map (\<lambda>x. str_or (Some x) []) vs) | _ \<Rightarrow> None)
              (case getd kvs ''continuation'' (JStr []) of JStr s \<Rightarrow> Some s | _ \<Rightarrow> None)
              (case gv of JStr s \<Rightarrow> Some s | _ \<Rightarrow> None)
              (case cv of JStr s \<Rightarrow> Some s | _ \<Rightarrow> None))
            \<lparr> files := dict_list_or_empty (Some (getd kvs ''files'' (JArr []))) \<rparr>)"
  unfolding from_dict_def
  by (simp only: subscr.simps dict_get_getd md cx t s gv cv option.case then_do_Inr
        as_str.simps as_str_eq [OF src_ok]
        as_opt_str_list_eq [OF kps_ok] as_opt_str_list_eq [OF oqs_ok]
        as_opt_str_eq [OF cont_ok] as_opt_str_eq [OF g_ok] as_opt_str_eq [OF c_ok]
        as_files_eq [OF files_ok])

lemma str_or_JStr: "str_or (Some (JStr x)) d = x"
  by (simp add: str_or_def)

lemma from_dict_typed:
  assumes st: "schema_typed data" and rp: "required_present data"
  shows "from_dict lib data = Inr (spec_decode lib data)"
proof -
  from st obtain kvs where data: "data = JObj kvs"
    by (cases data) (simp_all add: schema_typed_def)
  note st' = st [unfolded data]
  note top = schema_typed_top [OF st']
  from rp [unfolded data required_present_obj]
  have r1: "field (JObj kvs) [''metadata'', ''topic''] \<noteq> None"
    and r2: "field (JObj kvs) [''context'', ''summary''] \<noteq> None"
    and r3: "map_of kvs ''gossip_id'' \<noteq> None"
    and r4: "map_of kvs ''created'' \<noteq> None" by blast+
  from r1 obtain md where md: "map_of kvs ''metadata'' = Some (JObj md)"
    and t0: "map_of md ''topic'' \<noteq> None"
    unfolding field_double by (auto split: option.splits json.splits)
  from r2 obtain cx where cx: "map_of kvs ''context'' = Some (JObj cx)"
    and s0: "map_of cx ''summary'' \<noteq> None"
    unfolding field_double by (auto split: option.splits json.splits)
  note p_topic = schema_typed_metadata(1) [OF st' md]
  note p_src = schema_typed_metadata(2) [OF st' md]
  note p_sum = schema_typed_context(1) [OF st' cx]
  note p_kps = schema_typed_context(2) [OF st' cx]
  note p_oqs = schema_typed_context(3) [OF st' cx]
  from t0 obtain tv where "map_of md ''topic'' = Some tv" by blast
  with present_str [OF p_topic] obtain t where t: "map_of md ''topic'' = Some (JStr t)"
    by blast
  from s0 obtain sv where "map_of cx ''summary'' = Some sv" by blast
  with present_str [OF p_sum] obtain s where s: "map_of cx ''summary'' = Some (JStr s)"
    by blast
  from r3 obtain gv where gv: "map_of kvs ''gossip_id'' = Some gv" by blast
  from r4 obtain cv where cv: "map_of kvs ''created'' = Some cv" by blast
  from top(4) gv have g_ok: "is_opt_str gv" by (simp add: present_ok_def)
  from top(5) cv have c_ok: "is_opt_str cv" by (simp add: present_ok_def)
  have src_ok: "is_str (getd md ''source_ai'' (JStr ''unknown''))"
    by (rule getd_typed [OF p_src]) simp
  have kps_ok: "is_opt_str_list (getd cx ''key_points'' (JArr []))"
    by (rule getd_typed [OF p_kps]) simp
  have oqs_ok: "is_opt_str_list (getd cx ''open_questions'' (JArr []))"
    by (rule getd_typed [OF p_oqs]) simp
  have cont_ok: "is_opt_str (getd kvs ''continuation'' (JStr []))"
    by (rule getd_typed [OF top(3)]) simp
  have files_ok: "is_dict_list (getd kvs ''files'' (JArr []))"
    by (rule getd_typed [OF top(6)]) simp
  note run = from_dict_run [OF md cx t s gv cv g_ok c_ok src_ok kps_ok oqs_ok cont_ok files_ok,
      of lib]
  have f1: "field (JObj kvs) [''metadata'', ''topic''] = Some (JStr t)"
    and f2: "field (JObj kvs) [''metadata'', ''source_ai''] = map_of md ''source_ai''"
    and f3: "field (JObj kvs) [''context'', ''summary''] = Some (JStr s)"
    and f4: "field (JObj kvs) [''context'', ''key_points''] = map_of cx ''key_points''"
    and f5: "field (JObj kvs) [''context'', ''open_questions''] = map_of cx ''open_questions''"
    unfolding field_double by (simp_all add: md cx t s)
  show ?thesis
    unfolding data run spec_decode_def Gossip_init_def f1 f2 f3 f4 f5 field_single
    by (simp add: gv cv read_str [OF p_src] read_opt_str [OF top(3)]
          read_opt_str_list [OF p_kps] read_opt_str_list [OF p_oqs] read_files
          read_required [of gv] read_required [of cv] str_or_JStr)
qed

lemma from_dict_missing:
  assumes st: "schema_typed data" and nrp: "\<not> required_present data"
  shows "\<exists>k \<in> set [''metadata'', ''topic'', ''context'', ''summary'', ''gossip_id'', ''created''].
           from_dict lib data = Inl (KeyError k)"
proof -
  from st obtain kvs where data: "data = JObj kvs"
    by (cases data) (simp_all add: schema_typed_def)
  note st' = st [unfolded data]
  note top = schema_typed_top [OF st']
  show ?thesis
  proof (cases "map_of kvs ''metadata''")
    case None
    then have "from_dict lib data = Inl (KeyError ''metadata'')"
      unfolding from_dict_def data by simp
    then show ?thesis by simp
  next
    case (Some mdv)
    with present_obj [OF top(1)] obtain md where md: "map_of kvs ''metadata'' = Some (JObj md)"
      by blast
    show ?thesis
    proof (cases "map_of md ''topic''")
      case None
      with md have "from_dict lib data = Inl (KeyError ''topic'')"
        unfolding from_dict_def data by simp
      then show ?thesis by simp
    next
      case (Some tv)
      note t = this
      show ?thesis
      proof (cases "map_of kvs ''context''")
        case None
        with md t have "from_dict lib data = Inl (KeyError ''context'')"
          unfolding from_dict_def data by simp
        then show ?thesis by simp
      next
        case (Some cxv)
        with present_obj [OF top(2)] obtain cx where
          cx: "map_of kvs ''context'' = Some (JObj cx)" by blast
        show ?thesis
        proof (cases "map_of cx ''summary''")
          case None
          with md t cx have "from_dict lib data = Inl (KeyError ''summary'')"
            unfolding from_dict_def data by simp
          then show ?thesis by simp
        next
          case (Some sv)
          note s = this
          show ?thesis
          proof (cases "map_of kvs ''gossip_id''")
            case None
            with md t cx s have "from_dict lib data = Inl (KeyError ''gossip_id'')"
              unfolding from_dict_def data by (simp add: dict_get_getd del: dict_get.simps)
            then show ?thesis by simp
          next
            case (Some gv)
            note g = this
            show ?thesis
            proof (cases "map_of kvs ''created''")
              case None
              with md t cx s g have "from_dict lib data = Inl (KeyError ''created'')"
                unfolding from_dict_def data by (simp add: dict_get_getd del: dict_get.simps)
              then show ?thesis by simp
            next
              case (Some cv)
              with md t cx s g have "required_present data"
                unfolding data required_present_obj field_double by simp
              with nrp show ?thesis by contradiction
            qed
          qed
        qed
      qed
    qed
  qed
qed

text \<open>Outside the typed documents: a document that is not an object, or whose
  \<open>metadata\<close> is not an object, cannot be subscripted by a key, which is a \<open>TypeError\<close>.\<close>

lemma from_dict_not_an_object:
  "\<not> is_obj data \<Longrightarrow> from_dict lib data = Inl TypeError"
  by (cases data) (simp_all add: from_dict_def)

lemma from_dict_metadata_not_an_object:
  "map_of kvs ''metadata'' = Some v \<Longrightarrow> \<not> is_obj v \<Longrightarrow>
     from_dict lib (JObj kvs) = Inl TypeError"
  by (cases v) (simp_all add: from_dict_def)

lemma from_dict_known_keys:
  assumes "\<forall>k \<in> set known_keys. map_of kvs' k = map_of kvs k"
  shows "from_dict lib (JObj kvs') = from_dict lib (JObj kvs)"
proof -
  from assms have "map_of kvs' ''metadata'' = map_of kvs ''metadata''"
    and "map_of kvs' ''context'' = map_of kvs ''context''"
    and "map_of kvs' ''continuation'' = map_of kvs ''continuation''"
    and "map_of kvs' ''gossip_id'' = map_of kvs ''gossip_id''"
    and "map_of kvs' ''created'' = map_of kvs ''created''"
    and "map_of kvs' ''files'' = map_of kvs ''files''"
    by (simp_all add: known_keys_def)
  then show ?thesis
    unfolding from_dict_def by (simp only: subscr.simps dict_get.simps)
qed

text \<open>
  C5. \<open>load\<close> raises the \<open>ValueError\<close> of an unparsable file (the format error) exactly
  when \<open>json.loads\<close> rejects the content, and otherwise decodes what it parsed. For a
  document typed as the schema says: if one of the required fields \<open>metadata.topic\<close>,
  \<open>context.summary\<close>, \<open>gossip_id\<close>, \<open>created\<close> is absent, \<open>from_dict\<close> raises the
  \<open>KeyError\<close> of a missing key (the schema error); otherwise it succeeds with the
  container of \<open>spec_decode\<close>, in which an absent \<open>source_ai\<close> is \<open>unknown\<close>, absent
  \<open>key_points\<close>, \<open>open_questions\<close> and \<open>files\<close> are empty lists and an absent
  \<open>continuation\<close> is the empty string. Two documents that agree on the six keys that
  \<open>from_dict\<close> reads decode alike, whatever other fields they have.
\<close>

theorem C5_decode_outcomes:
  "(json_loads lib content = None \<longrightarrow>
      load lib content =
        Inl (ValueError ''Could not parse Gossip file. Ensure it's valid JSON format.''))
   \<and> (json_loads lib content = Some data \<longrightarrow> load lib content = from_dict lib data)
   \<and> (schema_typed data \<and> \<not> required_present data \<longrightarrow>
        (\<exists>k \<in> set [''metadata'', ''topic'', ''context'', ''summary'', ''gossip_id'', ''created''].
           from_dict lib data = Inl (KeyError k)))
   \<and> (schema_typed data \<and> required_present data \<longrightarrow>
        from_dict lib data = Inr (spec_decode lib data))
   \<and> ((\<forall>k \<in> set known_keys. map_of kvs' k = map_of kvs k) \<longrightarrow>
        from_dict lib (JObj kvs') = from_dict lib (JObj kvs))"
  using from_dict_missing [of data lib] from_dict_typed [of data lib]
    from_dict_known_keys [of kvs' kvs lib]
  by (simp add: load_def)

theorem C5_decode_outcomes_witness:
  "json_loads lib0 ''{oops'' = None
   \<and> load lib0 ''{oops'' =
       Inl (ValueError ''Could not parse Gossip file. Ensure it's valid JSON format.'')
   \<and> schema_typed (JObj [(''gossip_id'', JStr ''g1'')])
   \<and> \<not> required_present (JObj [(''gossip_id'', JStr ''g1'')])
   \<and> from_dict lib0 (JObj [(''gossip_id'', JStr ''g1'')]) = Inl (KeyError ''metadata'')
   \<and> schema_typed minimal_document
   \<and> required_present minimal_document
   \<and> from_dict lib0 minimal_document =
       Inr \<lparr> gossip_id = ''g1'',
             created = ''2024-03-15T10:30:00Z'',
             metadata = \<lparr> topic = ''T'', source_ai = ''unknown'', created_by = ''Gossip v1.0'' \<rparr>,
             ctx = \<lparr> summary = ''S'', key_points = [], open_questions = [] \<rparr>,
             files = [],
             continuation = [] \<rparr>"
proof -
  have l: "json_loads lib0 ''{oops'' = None" by (simp add: lib0_def)
  have s1: "schema_typed (JObj [(''gossip_id'', JStr ''g1'')])" by code_simp
  have r1: "\<not> required_present (JObj [(''gossip_id'', JStr ''g1'')])" by code_simp
  have e1: "from_dict lib0 (JObj [(''gossip_id'', JStr ''g1'')]) = Inl (KeyError ''metadata'')"
    by (simp add: from_dict_def)
  have s2: "schema_typed minimal_document" by code_simp
  have r2: "required_present minimal_document" by code_simp
  have d: "spec_decode lib0 minimal_document =
       \<lparr> gossip_id = ''g1'',
         created = ''2024-03-15T10:30:00Z'',
         metadata = \<lparr> topic = ''T'', source_ai = ''unknown'', created_by = ''Gossip v1.0'' \<rparr>,
         ctx = \<lparr> summary = ''S'', key_points = [], open_questions = [] \<rparr>,
         files = [],
         continuation = [] \<rparr>" by code_simp
  from C5_decode_outcomes [of lib0 "''{oops''" minimal_document "[]" "[]"] l s2 r2 d
  have "load lib0 ''{oops'' =
          Inl (ValueError ''Could not parse Gossip file. Ensure it's valid JSON format.'')"
    and "from_dict lib0 minimal_document =
       Inr \<lparr> gossip_id = ''g1'',
             created = ''2024-03-15T10:30:00Z'',
             metadata = \<lparr> topic = ''T'', source_ai = ''unknown'', created_by = ''Gossip v1.0'' \<rparr>,
             ctx = \<lparr> summary = ''S'', key_points = [], open_questions = [] \<rparr>,
             files = [],
             continuation = [] \<rparr>"
    by simp_all
  with l s1 r1 e1 s2 r2 show ?thesis by simp
qed

subsection \<open>The layout of the rendering\<close>

lemma foldl_append_each: "foldl (\<lambda>ls x. ls @ [f x]) ls xs = ls @ map f xs"
  by (induction xs arbitrary: ls) simp_all

lemma bullet_of_entry:
  "(\<lambda>entry. bullet @ '' '' @ lstrip ''- '' entry) = stripped_bullet"
  by (rule ext) (simp add: lstrip_def stripped_bullet_def)

lemma file_line_listed:
  assumes "attachment_fields f \<noteq> None"
  shows "file_line f = Inr (listed_line f)"
proof -
  from assms obtain n t k where n: "map_of f ''name'' = Some (JStr n)"
    and t: "map_of f ''type'' = Some (JStr t)" and k: "map_of f ''size'' = Some (JInt k)"
    and b: "\<bar>k\<bar> < 2 ^ 53"
    by (auto simp: attachment_fields_def split: option.splits json.splits if_splits)
  then show ?thesis
    by (simp add: file_line_def listed_line_def attachment_fields_def attachment_line_def)
qed

lemma files_loop_listed:
  "list_all (\<lambda>f. attachment_fields f \<noteq> None) fs \<Longrightarrow>
     files_loop ls fs = Inr (ls @ map listed_line fs)"
  by (induction fs arbitrary: ls) (simp_all add: file_line_listed)

lemma render_layout:
  assumes "fromisoformat lib (replace_Z (created g)) = Some dt"
    and "list_all (\<lambda>f. attachment_fields f \<noteq> None) (files g)"
  shows "to_human_readable lib g =
     Inr (join [CHR 0x0A]
       (layout_head lib g dt
        @ map stripped_bullet (key_points (ctx g))
        @ questions_heading
        @ map stripped_bullet (open_questions (ctx g))
        @ attached_section (files g)
        @ continuation_section (continuation g)
        @ closing_block (source_ai (metadata g))))"
  unfolding to_human_readable_def Let_def foldl_append_each bullet_of_entry
  by (simp add: assms(1) files_loop_listed [OF assms(2)]
        layout_head_def questions_heading_def attached_section_def continuation_section_def
        closing_block_def del: join.simps)

lemma stripped_bullet_split:
  "\<exists>pre rest. e = pre @ rest \<and> set pre \<subseteq> {CHR ''-'', CHR '' ''}
      \<and> (rest = [] \<or> hd rest \<notin> {CHR ''-'', CHR '' ''})
      \<and> stripped_bullet e = bullet @ '' '' @ rest"
proof -
  let ?P = "\<lambda>c. c = CHR ''-'' \<or> c = CHR '' ''"
  have 1: "e = takeWhile ?P e @ dropWhile ?P e" by simp
  have 2: "set (takeWhile ?P e) \<subseteq> {CHR ''-'', CHR '' ''}"
    using set_takeWhileD [of _ ?P e] by auto
  have 3: "dropWhile ?P e = [] \<or> hd (dropWhile ?P e) \<notin> {CHR ''-'', CHR '' ''}"
    using hd_dropWhile [of ?P e] by auto
  have 4: "stripped_bullet e = bullet @ '' '' @ dropWhile ?P e"
    by (simp add: stripped_bullet_def)
  from 1 2 3 4 show ?thesis by blast
qed

lemma stripped_bullet_unchanged:
  "e = [] \<or> hd e \<notin> {CHR ''-'', CHR '' ''} \<Longrightarrow> stripped_bullet e = bullet @ '' '' @ e"
  by (cases e) (auto simp: stripped_bullet_def)

text \<open>
  C6, as the code has it. When the timestamp parses and the attachments can be listed,
  the rendering has exactly one bullet for each key point and for each open question,
  in their order, and the text of a bullet is the entry with every leading \<open>-\<close> and
  space removed, as \<open>lstrip('- ')\<close> does: \<open>- Decided X\<close> gives \<open>Decided X\<close>, every entry
  splits into a run of dashes and spaces that is dropped and a rest that is kept, and
  an entry that begins with neither a dash nor a space is kept unchanged.
\<close>

theorem C6_bullets_strip_dashes_and_spaces:
  assumes "fromisoformat lib (replace_Z (created g)) = Some dt"
    and "list_all (\<lambda>f. attachment_fields f \<noteq> None) (files g)"
  shows "to_human_readable lib g =
     Inr (join [CHR 0x0A]
       (layout_head lib g dt
        @ map stripped_bullet (key_points (ctx g))
        @ questions_heading
        @ map stripped_bullet (open_questions (ctx g))
        @ attached_section (files g)
        @ continuation_section (continuation g)
        @ closing_block (source_ai (metadata g))))
   \<and> stripped_bullet ''- Decided X'' = bullet @ '' Decided X''
   \<and> (\<forall>e. \<exists>pre rest. e = pre @ rest \<and> set pre \<subseteq> {CHR ''-'', CHR '' ''}
          \<and> (rest = [] \<or> hd rest \<notin> {CHR ''-'', CHR '' ''})
          \<and> stripped_bullet e = bullet @ '' '' @ rest)
   \<and> (\<forall>e. e = [] \<or> hd e \<notin> {CHR ''-'', CHR '' ''} \<longrightarrow> stripped_bullet e = bullet @ '' '' @ e)"
  using render_layout [OF assms] stripped_bullet_split stripped_bullet_unchanged
  by (simp add: stripped_bullet_def)

text \<open>The entry \<open>x\<close> with a space before it has no dash in front; its bullet carries
  \<open>x\<close> without the space.\<close>

theorem C6_leading_space_counterexample:
  "to_human_readable lib0 leading_space_gossip =
     Inr (join [CHR 0x0A]
       [ ''# GOSSIP [ID: g1]'',
         rule63,
         ''AI Conversation Context Transfer File'',
         ''Created by Gossip - Universal AI Integration Layer'',
         rule63,
         [],
         ''**Topic:** T'',
         ''**Source AI:** claude'',
         ''**Created:** 2024-03-15 10:30:00 UTC'',
         [],
         rule63,
         ''## CONVERSATION CONTEXT'',
         [],
         ''S'',
         [],
         rule63,
         ''## KEY POINTS & DECISIONS'',
         [],
         bullet @ '' x'',
         [],
         rule63,
         ''## OPEN QUESTIONS / NEXT STEPS'',
         [],
         [],
         rule63,
         ''## INSTRUCTIONS FOR AI SYSTEMS:'',
         [],
         ''This is a Gossip file - a universal context transfer format for AI systems.'',
         ''Please read this entire context carefully. This represents a conversation'',
         ''from another AI system (claude) that should continue'',
         ''seamlessly in your system.'',
         [],
         ''Treat this as if you've been having this conversation yourself. Reference'',
         ''the key points and decisions made, acknowledge the open questions, and pick'',
         ''up from the 'Continue from here' section.'',
         [],
         ''If files are referenced but not accessible in your system, acknowledge them'',
         ''and proceed based on the context provided.'',
         [],
         ''Gossip enables AI interoperability. Honor the context and maintain continuity.'',
         rule63 ])
   \<and> key_points (ctx leading_space_gossip) = ['' x'']
   \<and> bullet @ '' x'' \<noteq> bullet @ '' '' @ '' x''"
proof -
  let ?dt = "\<lparr> year = 2024, month = 3, day = 15, hour = 10, minute = 30, second = 0,
              microsecond = 0, utcoffset = Some 0 \<rparr>"
  have p: "fromisoformat lib0 (replace_Z (created leading_space_gossip)) = Some ?dt"
    by code_simp
  have f: "list_all (\<lambda>f. attachment_fields f \<noteq> None) (files leading_space_gossip)"
    by (simp add: leading_space_gossip_def)
  have s: "strftime lib0 ?dt = ''2024-03-15 10:30:00 UTC''"
    by code_simp
  have b: "stripped_bullet '' x'' = bullet @ '' x''"
    by (simp add: stripped_bullet_def)
  show ?thesis
    unfolding render_layout [OF p f]
    by (simp add: leading_space_gossip_def layout_head_def questions_heading_def
          attached_section_def continuation_section_def closing_block_def s b
          del: join.simps)
qed

theorem C6_bullets_strip_dashes_and_spaces_witness:
  "fromisoformat lib0 (replace_Z (created example_gossip))
     = Some \<lparr> year = 2024, month = 3, day = 15, hour = 10, minute = 30, second = 0,
              microsecond = 0, utcoffset = Some 0 \<rparr>
   \<and> list_all (\<lambda>f. attachment_fields f \<noteq> None) (files example_gossip)
   \<and> map stripped_bullet (key_points (ctx example_gossip))
       = [bullet @ '' Decided X'', bullet @ '' plain'']
   \<and> to_human_readable lib0 example_gossip =
       Inr (join [CHR 0x0A]
         (layout_head lib0 example_gossip
            \<lparr> year = 2024, month = 3, day = 15, hour = 10, minute = 30, second = 0,
              microsecond = 0, utcoffset = Some 0 \<rparr>
          @ [bullet @ '' Decided X'', bullet @ '' plain'']
          @ questions_heading
          @ [bullet @ '' why?'']
          @ attached_section (files example_gossip)
          @ continuation_section ''go on''
          @ closing_block ''claude''))"
proof -
  let ?dt = "\<lparr> year = 2024, month = 3, day = 15, hour = 10, minute = 30, second = 0,
              microsecond = 0, utcoffset = Some 0 \<rparr>"
  have p: "fromisoformat lib0 (replace_Z (created example_gossip)) = Some ?dt"
    by code_simp
  have f: "list_all (\<lambda>f. attachment_fields f \<noteq> None) (files example_gossip)"
    by code_simp
  have b: "map stripped_bullet (key_points (ctx example_gossip))
       = [bullet @ '' Decided X'', bullet @ '' plain'']"
    by (simp add: example_gossip_def stripped_bullet_def)
  have q: "map stripped_bullet (open_questions (ctx example_gossip)) = [bullet @ '' why?'']"
    by (simp add: example_gossip_def stripped_bullet_def)
  have c: "continuation example_gossip = ''go on''"
    and m: "source_ai (metadata example_gossip) = ''claude''"
    by (simp_all add: example_gossip_def)
  from C6_bullets_strip_dashes_and_spaces [OF p f] p f b q c m show ?thesis
    by (simp del: join.simps)
qed

lemma format_1f_one_decimal:
  assumes "0 \<le> q"
  shows "\<exists>a d. d < 10 \<and> format_1f q = show_nat a @ ''.'' @ show_nat d
           \<and> \<bar>q - (of_nat a + of_nat d / 10)\<bar> \<le> 1 / 20"
proof -
  define x where "x = q * 10"
  define t where "t = \<lfloor>x\<rfloor>"
  define r where "r = x - of_int t"
  define u where "u = nat (if r > 1 / 2 \<or> (r = 1 / 2 \<and> odd t) then t + 1 else t)"
  have x0: "0 \<le> x" using assms by (simp add: x_def)
  then have t0: "0 \<le> t" by (simp add: t_def)
  have r0: "0 \<le> r" and r1: "r < 1"
    unfolding r_def t_def by linarith+
  have xu: "\<bar>x - of_nat u\<bar> \<le> 1 / 2"
  proof (cases "r > 1 / 2 \<or> (r = 1 / 2 \<and> odd t)")
    case True
    have "u = nat (t + 1)" by (simp only: u_def True if_True)
    with t0 have "(of_nat u :: rat) = of_int t + 1" by simp
    with True r0 r1 show ?thesis unfolding r_def by auto
  next
    case False
    have "u = nat t" by (simp only: u_def False if_False)
    with t0 have "(of_nat u :: rat) = of_int t" by simp
    with False r0 r1 show ?thesis unfolding r_def by auto
  qed
  have fmt: "format_1f q = show_nat (u div 10) @ ''.'' @ show_nat (u mod 10)"
    using assms
    unfolding format_1f_def Let_def x_def [symmetric] abs_of_nonneg [OF assms]
      t_def [symmetric] r_def [symmetric] u_def [symmetric]
    by simp
  have "(of_nat u :: rat) = of_nat (u div 10) * 10 + of_nat (u mod 10)"
    by (metis of_nat_add of_nat_mult of_nat_numeral div_mult_mod_eq)
  then have "q - (of_nat (u div 10) + of_nat (u mod 10) / 10) = (x - of_nat u) / 10"
    by (simp add: x_def field_simps)
  then have "\<bar>q - (of_nat (u div 10) + of_nat (u mod 10) / 10)\<bar> = \<bar>x - of_nat u\<bar> / 10"
    by (simp only: abs_divide abs_numeral)
  also have "\<dots> \<le> (1 / 2) / 10"
    by (rule divide_right_mono [OF xu]) simp
  finally have "\<bar>q - (of_nat (u div 10) + of_nat (u mod 10) / 10)\<bar> \<le> 1 / 20"
    by simp
  with fmt show ?thesis
    by (intro exI [of _ "u div 10"] exI [of _ "u mod 10"]) (simp del: show_nat.simps)
qed

lemma listed_line_fields:
  assumes "attachment_fields f \<noteq> None"
  shows "\<exists>n t k. map_of f ''name'' = Some (JStr n) \<and> map_of f ''type'' = Some (JStr t)
           \<and> map_of f ''size'' = Some (JInt k)
           \<and> listed_line f =
               bullet @ '' '' @ n @ '' ('' @ t @ '', '' @ format_1f (of_int k / 1024) @ '' KB)''"
proof -
  from assms obtain n t k where n: "map_of f ''name'' = Some (JStr n)"
    and t: "map_of f ''type'' = Some (JStr t)" and k: "map_of f ''size'' = Some (JInt k)"
    and b: "\<bar>k\<bar> < 2 ^ 53"
    by (auto simp: attachment_fields_def split: option.splits json.splits if_splits)
  then have "listed_line f =
      bullet @ '' '' @ n @ '' ('' @ t @ '', '' @ format_1f (of_int k / 1024) @ '' KB)''"
    by (simp add: listed_line_def attachment_fields_def attachment_line_def)
  with n t k show ?thesis by blast
qed

text \<open>
  C7. When the timestamp parses and the attachments can be listed, the rendering is
  the head, the bullets and then three parts: the section \<open>ATTACHED FILES\<close>, which is
  empty exactly when there is no attachment and otherwise lists each attachment with
  its name, its type and its size in KB with one digit after the point (the nearest
  such decimal; 1536 bytes give \<open>1.5\<close>); the section \<open>CONTINUE FROM HERE\<close>, which is empty
  exactly when the continuation is empty and otherwise ends with the continuation; and
  the closing block, always there, with the line that names the source system.
\<close>

theorem C7_conditional_sections:
  assumes "fromisoformat lib (replace_Z (created g)) = Some dt"
    and "list_all (\<lambda>f. attachment_fields f \<noteq> None) (files g)"
  shows "to_human_readable lib g =
     Inr (join [CHR 0x0A]
       (layout_head lib g dt
        @ map stripped_bullet (key_points (ctx g))
        @ questions_heading
        @ map stripped_bullet (open_questions (ctx g))
        @ attached_section (files g)
        @ continuation_section (continuation g)
        @ closing_block (source_ai (metadata g))))
   \<and> (attached_section (files g) = [] \<longleftrightarrow> files g = [])
   \<and> (files g \<noteq> [] \<longrightarrow>
        attached_section (files g) =
          [ [], rule63, ''## ATTACHED FILES'', [] ] @ map listed_line (files g) @
          [ [], ''[Files are base64-encoded in the full Gossip JSON format]'' ])
   \<and> (\<forall>f \<in> set (files g). \<exists>n t k.
          map_of f ''name'' = Some (JStr n) \<and> map_of f ''type'' = Some (JStr t)
          \<and> map_of f ''size'' = Some (JInt k)
          \<and> listed_line f =
              bullet @ '' '' @ n @ '' ('' @ t @ '', '' @ format_1f (of_int k / 1024) @ '' KB)'')
   \<and> (\<forall>q \<ge> 0. \<exists>a d. d < 10 \<and> format_1f q = show_nat a @ ''.'' @ show_nat d
          \<and> \<bar>q - (of_nat a + of_nat d / 10)\<bar> \<le> 1 / 20)
   \<and> format_1f (1536 / 1024) = ''1.5''
   \<and> (continuation_section (continuation g) = [] \<longleftrightarrow> continuation g = [])
   \<and> (continuation g \<noteq> [] \<longrightarrow>
        continuation_section (continuation g) =
          [ [], rule63, ''## CONTINUE FROM HERE:'', [], continuation g ])
   \<and> ''## INSTRUCTIONS FOR AI SYSTEMS:'' \<in> set (closing_block (source_ai (metadata g)))
   \<and> ''from another AI system ('' @ source_ai (metadata g) @ '') that should continue''
        \<in> set (closing_block (source_ai (metadata g)))"
proof -
  have kb: "format_1f (1536 / 1024) = ''1.5''" by code_simp
  have each: "\<forall>f \<in> set (files g). \<exists>n t k.
          map_of f ''name'' = Some (JStr n) \<and> map_of f ''type'' = Some (JStr t)
          \<and> map_of f ''size'' = Some (JInt k)
          \<and> listed_line f =
              bullet @ '' '' @ n @ '' ('' @ t @ '', '' @ format_1f (of_int k / 1024) @ '' KB)''"
    using assms(2) listed_line_fields by (auto simp: list_all_iff)
  have dec: "\<forall>q \<ge> 0. \<exists>a d. d < 10 \<and> format_1f q = show_nat a @ ''.'' @ show_nat d
          \<and> \<bar>q - (of_nat a + of_nat d / 10)\<bar> \<le> 1 / 20"
    using format_1f_one_decimal by blast
  have att: "(attached_section (files g) = [] \<longleftrightarrow> files g = [])
     \<and> (files g \<noteq> [] \<longrightarrow>
        attached_section (files g) =
          [ [], rule63, ''## ATTACHED FILES'', [] ] @ map listed_line (files g) @
          [ [], ''[Files are base64-encoded in the full Gossip JSON format]'' ])"
    by (simp add: attached_section_def)
  have cont: "(continuation_section (continuation g) = [] \<longleftrightarrow> continuation g = [])
     \<and> (continuation g \<noteq> [] \<longrightarrow>
        continuation_section (continuation g) =
          [ [], rule63, ''## CONTINUE FROM HERE:'', [], continuation g ])"
    by (simp add: continuation_section_def)
  have clo: "''## INSTRUCTIONS FOR AI SYSTEMS:'' \<in> set (closing_block (source_ai (metadata g)))
     \<and> ''from another AI system ('' @ source_ai (metadata g) @ '') that should continue''
        \<in> set (closing_block (source_ai (metadata g)))"
    by (simp add: closing_block_def)
  from render_layout [OF assms] kb each dec att cont clo show ?thesis
    by (intro conjI) blast+
qed

theorem C7_conditional_sections_witness:
  "fromisoformat lib0 (replace_Z (created example_gossip))
     = Some \<lparr> year = 2024, month = 3, day = 15, hour = 10, minute = 30, second = 0,
              microsecond = 0, utcoffset = Some 0 \<rparr>
   \<and> list_all (\<lambda>f. attachment_fields f \<noteq> None) (files example_gossip)
   \<and> attached_section (files example_gossip) =
       [ [], rule63, ''## ATTACHED FILES'', [],
         bullet @ '' x.txt (text/plain, 0.0 KB)'',
         bullet @ '' x.txt (text/plain, 0.0 KB)'',
         [], ''[Files are base64-encoded in the full Gossip JSON format]'' ]
   \<and> continuation_section (continuation example_gossip) =
       [ [], rule63, ''## CONTINUE FROM HERE:'', [], ''go on'' ]
   \<and> to_human_readable lib0 example_gossip =
       Inr (join [CHR 0x0A]
         (layout_head lib0 example_gossip
            \<lparr> year = 2024, month = 3, day = 15, hour = 10, minute = 30, second = 0,
              microsecond = 0, utcoffset = Some 0 \<rparr>
          @ [bullet @ '' Decided X'', bullet @ '' plain'']
          @ questions_heading
          @ [bullet @ '' why?'']
          @ [ [], rule63, ''## ATTACHED FILES'', [],
              bullet @ '' x.txt (text/plain, 0.0 KB)'',
              bullet @ '' x.txt (text/plain, 0.0 KB)'',
              [], ''[Files are base64-encoded in the full Gossip JSON format]'' ]
          @ [ [], rule63, ''## CONTINUE FROM HERE:'', [], ''go on'' ]
          @ closing_block ''claude''))"
proof -
  let ?dt = "\<lparr> year = 2024, month = 3, day = 15, hour = 10, minute = 30, second = 0,
              microsecond = 0, utcoffset = Some 0 \<rparr>"
  have p: "fromisoformat lib0 (replace_Z (created example_gossip)) = Some ?dt"
    by code_simp
  have f: "list_all (\<lambda>f. attachment_fields f \<noteq> None) (files example_gossip)"
    by code_simp
  have b: "map stripped_bullet (key_points (ctx example_gossip))
       = [bullet @ '' Decided X'', bullet @ '' plain'']"
    by (simp add: example_gossip_def stripped_bullet_def)
  have q: "map stripped_bullet (open_questions (ctx example_gossip)) = [bullet @ '' why?'']"
    by (simp add: example_gossip_def stripped_bullet_def)
  have c: "continuation example_gossip = ''go on''"
    and m: "source_ai (metadata example_gossip) = ''claude''"
    by (simp_all add: example_gossip_def)
  have z1: "format_1f (1 / 1024) = ''0.0''" and z3: "format_1f (3 / 1024) = ''0.0''"
    by code_simp+
  have l: "map listed_line (files example_gossip) =
      [ bullet @ '' x.txt (text/plain, 0.0 KB)'', bullet @ '' x.txt (text/plain, 0.0 KB)'' ]"
    by (simp add: example_gossip_def listed_line_def attachment_fields_def
          attachment_line_def z1 z3)
  have ne: "files example_gossip \<noteq> []" by (simp add: example_gossip_def)
  have cs: "continuation_section ''go on'' = [ [], rule63, ''## CONTINUE FROM HERE:'', [], ''go on'' ]"
    by (simp add: continuation_section_def)
  from C7_conditional_sections [OF p f] p f b q c m l ne cs show ?thesis
    by (simp del: join.simps)
qed

subsection \<open>Failures of the rendering\<close>

lemma files_loop_prefix:
  "files_loop ls fs = then_do (files_loop [] fs) (\<lambda>r. Inr (ls @ r))"
proof (induction fs arbitrary: ls)
  case Nil
  show ?case by simp
next
  case (Cons f fs)
  show ?case
  proof (cases "file_line f")
    case (Inl e)
    then show ?thesis by simp
  next
    case (Inr l)
    have "files_loop ls (f # fs) = files_loop (ls @ [l]) fs" using Inr by simp
    also have "\<dots> = then_do (files_loop [] fs) (\<lambda>r. Inr ((ls @ [l]) @ r))"
      by (rule Cons.IH)
    finally have 1: "files_loop ls (f # fs)
        = then_do (files_loop [] fs) (\<lambda>r. Inr (ls @ l # r))" by simp
    have "files_loop [] (f # fs) = files_loop [l] fs" using Inr by simp
    also have "\<dots> = then_do (files_loop [] fs) (\<lambda>r. Inr ([l] @ r))"
      by (rule Cons.IH)
    finally have 2: "files_loop [] (f # fs) = then_do (files_loop [] fs) (\<lambda>r. Inr (l # r))"
      by simp
    show ?thesis unfolding 1 2 by (cases "files_loop [] fs") simp_all
  qed
qed

lemma files_loop_Inl:
  "files_loop [] fs = Inl e \<Longrightarrow> files_loop ls fs = Inl e"
  using files_loop_prefix [of ls fs] by simp


lemma files_loop_Inr:
  "files_loop [] fs = Inr r \<Longrightarrow> files_loop ls fs = Inr (ls @ r)"
  using files_loop_prefix [of ls fs] by simp

lemma render_unfold:
  "to_human_readable lib g =
     (case fromisoformat lib (replace_Z (created g)) of
        None \<Rightarrow> Inl (ValueError (isoformat_error lib (replace_Z (created g))))
      | Some dt \<Rightarrow>
          then_do (files_loop [] (files g)) (\<lambda>file_lines.
            Inr (join [CHR 0x0A]
              (layout_head lib g dt
               @ map stripped_bullet (key_points (ctx g))
               @ questions_heading
               @ map stripped_bullet (open_questions (ctx g))
               @ (if files g = [] then []
                  else [ [], rule63, ''## ATTACHED FILES'', [] ] @ file_lines @
                       [ [], ''[Files are base64-encoded in the full Gossip JSON format]'' ])
               @ continuation_section (continuation g)
               @ closing_block (source_ai (metadata g))))))"
proof (cases "fromisoformat lib (replace_Z (created g))")
  case None
  then show ?thesis by (simp add: to_human_readable_def)
next
  case (Some dt)
  show ?thesis
  proof (cases "files_loop [] (files g)")
    case (Inl e)
    then have ne: "files g \<noteq> []" by auto
    show ?thesis
      unfolding to_human_readable_def Let_def foldl_append_each bullet_of_entry
      by (simp add: Some ne Inl files_loop_Inl [OF Inl])
  next
    case (Inr r)
    show ?thesis
      unfolding to_human_readable_def Let_def foldl_append_each bullet_of_entry
      by (simp add: Some Inr files_loop_Inr [OF Inr]
            layout_head_def questions_heading_def continuation_section_def
            closing_block_def del: join.simps)
  qed
qed

lemma render_Inl_cases:
  assumes "to_human_readable lib g = Inl e"
  shows "(fromisoformat lib (replace_Z (created g)) = None
            \<and> e = ValueError (isoformat_error lib (replace_Z (created g))))
         \<or> (fromisoformat lib (replace_Z (created g)) \<noteq> None
            \<and> files_loop [] (files g) = Inl e)"
  using assms unfolding render_unfold
  by (cases "fromisoformat lib (replace_Z (created g))"; cases "files_loop [] (files g)")
     simp_all


lemma file_line_no_size:
  "map_of f ''size'' = None \<Longrightarrow> file_line f = Inl (KeyError ''size'')"
  by (simp add: file_line_def then_do_def)

lemma files_loop_first_failure:
  assumes "list_all (\<lambda>f. attachment_fields f \<noteq> None) pre"
    and "file_line f = Inl e"
  shows "files_loop ls (pre @ f # post) = Inl e"
  using assms
proof (induction pre arbitrary: ls)
  case Nil
  then show ?case by (simp add: then_do_def)
next
  case (Cons p pre)
  then have "file_line p = Inr (listed_line p)" by (simp add: file_line_listed)
  with Cons show ?case by (simp add: then_do_def)
qed

lemma render_first_failure:
  assumes "fromisoformat lib (replace_Z (created g)) \<noteq> None"
    and "files g = pre @ f # post"
    and "list_all (\<lambda>f. attachment_fields f \<noteq> None) pre"
    and "file_line f = Inl e"
  shows "to_human_readable lib g = Inl e"
proof -
  from assms(1) obtain dt where dt: "fromisoformat lib (replace_Z (created g)) = Some dt"
    by blast
  have "files_loop [] (files g) = Inl e"
    unfolding assms(2) by (rule files_loop_first_failure [OF assms(3) assms(4)])
  then show ?thesis unfolding render_unfold by (simp add: dt then_do_def)
qed


text \<open>
  C10. The rendering fails with the \<open>ValueError\<close> of \<open>datetime.fromisoformat\<close> when the
  timestamp, every \<open>Z\<close> replaced by \<open>+00:00\<close>, does not parse. When it parses, the
  rendering returns a text if every attachment can be listed (a string \<open>name\<close>, a string
  \<open>type\<close>, an integer \<open>size\<close> below \<open>2 ^ 53\<close> in absolute value); it fails with the
  \<open>KeyError\<close> of the key \<open>size\<close> at the first attachment that has no \<open>size\<close>, when the
  attachments before it can be listed. Any non-empty string is the timestamp of some
  decoded container: \<open>from_dict\<close> keeps the field \<open>created\<close> of the document as it is.
\<close>

theorem C10_render_needs_iso_timestamp:
  "(fromisoformat lib (replace_Z (created g)) = None \<longrightarrow>
      to_human_readable lib g = Inl (ValueError (isoformat_error lib (replace_Z (created g)))))
   \<and> (fromisoformat lib (replace_Z (created g)) \<noteq> None
        \<and> list_all (\<lambda>f. attachment_fields f \<noteq> None) (files g) \<longrightarrow>
        (\<exists>rendering. to_human_readable lib g = Inr rendering))
   \<and> (fromisoformat lib (replace_Z (created g)) \<noteq> None
        \<and> files g = pre @ f # post
        \<and> list_all (\<lambda>f. attachment_fields f \<noteq> None) pre
        \<and> map_of f ''size'' = None \<longrightarrow>
        to_human_readable lib g = Inl (KeyError ''size''))
   \<and> (valid_gossip g \<and> cr \<noteq> [] \<longrightarrow>
        from_dict lib (to_dict (g \<lparr> created := cr \<rparr>)) = Inr (g \<lparr> created := cr \<rparr>))"
proof (intro conjI impI)
  assume "fromisoformat lib (replace_Z (created g)) = None"
  then show "to_human_readable lib g
               = Inl (ValueError (isoformat_error lib (replace_Z (created g))))"
    by (simp add: to_human_readable_def)
next
  assume a: "fromisoformat lib (replace_Z (created g)) \<noteq> None
        \<and> list_all (\<lambda>f. attachment_fields f \<noteq> None) (files g)"
  then obtain dt where "fromisoformat lib (replace_Z (created g)) = Some dt" by blast
  from render_layout [OF this] a show "\<exists>rendering. to_human_readable lib g = Inr rendering"
    by blast
next
  assume a: "fromisoformat lib (replace_Z (created g)) \<noteq> None
        \<and> files g = pre @ f # post
        \<and> list_all (\<lambda>f. attachment_fields f \<noteq> None) pre
        \<and> map_of f ''size'' = None"
  then have 1: "fromisoformat lib (replace_Z (created g)) \<noteq> None"
    and 2: "files g = pre @ f # post"
    and 3: "list_all (\<lambda>f. attachment_fields f \<noteq> None) pre"
    and 4: "map_of f ''size'' = None" by blast+
  show "to_human_readable lib g = Inl (KeyError ''size'')"
    by (rule render_first_failure [OF 1 2 3 file_line_no_size [OF 4]])
next
  assume "valid_gossip g \<and> cr \<noteq> []"
  then have "valid_gossip (g \<lparr> created := cr \<rparr>)" by (simp add: valid_gossip_def)
  then show "from_dict lib (to_dict (g \<lparr> created := cr \<rparr>)) = Inr (g \<lparr> created := cr \<rparr>)"
    by (rule from_dict_to_dict)
qed

theorem C10_render_needs_iso_timestamp_witness:
  "fromisoformat lib0 (replace_Z ''yesterday'') = None
   \<and> from_dict lib0 (to_dict (example_gossip \<lparr> created := ''yesterday'' \<rparr>))
       = Inr (example_gossip \<lparr> created := ''yesterday'' \<rparr>)
   \<and> to_human_readable lib0 (example_gossip \<lparr> created := ''yesterday'' \<rparr>)
       = Inl (ValueError (''Invalid isoformat string: '' @ [CHR 0x27] @ ''yesterday'' @ [CHR 0x27]))
   \<and> fromisoformat lib0 (replace_Z (created example_gossip)) \<noteq> None
   \<and> \<not> isl (to_human_readable lib0 example_gossip)
   \<and> to_human_readable lib0 (example_gossip \<lparr> files := [[]] \<rparr>) = Inl (KeyError ''size'')"
proof -
  have n: "fromisoformat lib0 (replace_Z (created (example_gossip \<lparr> created := ''yesterday'' \<rparr>)))
            = None" by code_simp
  have m: "isoformat_error lib0 (replace_Z (created (example_gossip \<lparr> created := ''yesterday'' \<rparr>)))
            = ''Invalid isoformat string: '' @ [CHR 0x27] @ ''yesterday'' @ [CHR 0x27]"
    by code_simp
  have v: "valid_gossip example_gossip \<and> ''yesterday'' \<noteq> []"
    by (simp add: valid_gossip_def example_gossip_def)
  have p: "fromisoformat lib0 (replace_Z (created example_gossip)) \<noteq> None
        \<and> list_all (\<lambda>f. attachment_fields f \<noteq> None) (files example_gossip)"
    by code_simp
  have q: "fromisoformat lib0 (replace_Z (created (example_gossip \<lparr> files := [[]] \<rparr>))) \<noteq> None
        \<and> files (example_gossip \<lparr> files := [[]] \<rparr>) = [] @ [] # []
        \<and> list_all (\<lambda>f. attachment_fields f \<noteq> None) []
        \<and> map_of ([] :: pydict) ''size'' = None"
    by code_simp
  from C10_render_needs_iso_timestamp
         [of lib0 "example_gossip \<lparr> created := ''yesterday'' \<rparr>" "[]" "[]" "[]" "''yesterday''"] n
  have "to_human_readable lib0 (example_gossip \<lparr> created := ''yesterday'' \<rparr>)
             = Inl (ValueError (isoformat_error lib0
                 (replace_Z (created (example_gossip \<lparr> created := ''yesterday'' \<rparr>)))))"
    by blast
  then have 1: "to_human_readable lib0 (example_gossip \<lparr> created := ''yesterday'' \<rparr>)
       = Inl (ValueError (''Invalid isoformat string: '' @ [CHR 0x27] @ ''yesterday'' @ [CHR 0x27]))"
    unfolding m .
  from C10_render_needs_iso_timestamp [of lib0 example_gossip "[]" "[]" "[]" "''yesterday''"] v p
  have 2: "from_dict lib0 (to_dict (example_gossip \<lparr> created := ''yesterday'' \<rparr>))
             = Inr (example_gossip \<lparr> created := ''yesterday'' \<rparr>)"
    and 3: "\<exists>rendering. to_human_readable lib0 example_gossip = Inr rendering"
    by blast+
  from C10_render_needs_iso_timestamp
         [of lib0 "example_gossip \<lparr> files := [[]] \<rparr>" "[]" "[]" "[]" "''yesterday''"] q
  have 4: "to_human_readable lib0 (example_gossip \<lparr> files := [[]] \<rparr>) = Inl (KeyError ''size'')"
    by blast
  from n 1 2 3 4 p show ?thesis by auto
qed


text \<open>
  A timestamp that parses is not enough for a rendering: the document whose only
  attachment is the empty dictionary decodes, its timestamp parses, and the rendering
  of the decoded container raises the \<open>KeyError\<close> of \<open>file['size']\<close>.
\<close>

theorem C10_unlistable_attachment_counterexample:
  "from_dict lib0 bare_attachment_document
     = Inr \<lparr> gossip_id = ''g1'',
             created = ''2024-03-15T10:30:00Z'',
             metadata = \<lparr> topic = ''T'', source_ai = ''unknown'', created_by = ''Gossip v1.0'' \<rparr>,
             ctx = \<lparr> summary = ''S'', key_points = [], open_questions = [] \<rparr>,
             files = [[]],
             continuation = [] \<rparr>
   \<and> fromisoformat lib0 (replace_Z ''2024-03-15T10:30:00Z'')
       = Some \<lparr> year = 2024, month = 3, day = 15, hour = 10, minute = 30, second = 0,
                microsecond = 0, utcoffset = Some 0 \<rparr>
   \<and> then_do (from_dict lib0 bare_attachment_document) (to_human_readable lib0)
       = Inl (KeyError ''size'')"
  by code_simp

subsection \<open>Statistics\<close>










































end
